theory Spec2Isabelle
  imports Main "HOL-Library.Word"
begin

section \<open>The push-to-talk translator controller (double_translator.py)\<close>

text \<open>
  The controller is a single Python module: global variables, a handful of helper
  functions, and a main loop that polls three GPIO inputs.  The model keeps the module's
  globals in one record, threads it through every function, and logs each call that
  leaves the process (LEDs, sleeps, aplay, model construction, recognizer, translator,
  synthesiser, shutdown) in the field \<open>trace\<close>, in program order.  Console
  output (\<open>print\<close>) is not modelled.

  Two callbacks run on threads of their own: the exit button's \<open>exit_program\<close> and
  the audio stream's \<open>callback\<close>.  What the environment does during one iteration of a
  polling loop is a \<open>poll\<close>, and a loop consumes one poll per iteration: the exit
  callback may complete before the iteration tests the exit flag, or between that test
  and the iteration's reads of the button and the switch, and the audio callback runs
  once for each buffer that arrived.  Where the main thread clears \<open>recording\<close>, an
  invocation of the audio callback is taken apart into its two steps, the test of
  \<open>recording\<close> and the \<open>put\<close>, with the assignment between them.  Collaborators
  outside the module (recognizer, punctuation model, tokenizers, translator, file system)
  are parameters, collected in \<open>env\<close>.
\<close>

subsection \<open>Data\<close>

text \<open>A Python \<open>str\<close> is a sequence of Unicode code points.\<close>

type_synonym pystr = "nat list"

text \<open>One callback buffer: mono \<open>int16\<close> samples (an array of shape (n, 1)).\<close>

type_synonym chunk = "16 word list"

datatype py_error =
  NameError | AttributeError | TypeError | JSONDecodeError | UnicodeEncodeError

datatype led = Red | Green

text \<open>The objects \<open>load_models\<close> constructs, each from the path it is built from.\<close>

datatype resource = VoskModel string | Translator string | SentencePiece string

datatype event =
    LedOn led
  | LedOff led
  | LedToggle led
  | Sleep nat
  | Aplay string string
  | Construct resource
  | GcCollect
  | Recognize resource nat chunk
  | Punctuate pystr
  | TranslateBatch resource "pystr list"
  | Speak string string pystr
  | Shutdown

text \<open>
  \<open>Sleep\<close> carries milliseconds: \<open>time.sleep(0.25)\<close> is \<open>Sleep 250\<close> and
  \<open>time.sleep(0.01)\<close> is \<open>Sleep 10\<close>.  \<open>Aplay dev file\<close> is
  \<open>subprocess.run(["aplay", "-D", dev, file])\<close>, which returns when playback is over.
\<close>

text \<open>What \<open>json.loads\<close> can return.\<close>

datatype json =
    JNull
  | JBool bool
  | JNumber int
  | JString pystr
  | JArray "json list"
  | JObject "(pystr \<times> json) list"

text \<open>
  The name \<open>stream\<close> is unbound until the first \<open>sd.InputStream(...)\<close> succeeds
  (\<open>None\<close>); afterwards it refers to a stream that is constructed but not started,
  started, or closed.
\<close>

datatype stream_state = Constructed | Started | Closed

record state =
  current_direction :: string
  vosk_model :: "resource option"
  translator :: "resource option"
  sp_source :: "resource option"
  sp_target :: "resource option"
  piper_voice :: "string option"
  piper_config :: "string option"
  live :: "resource list"
  exit_requested :: bool
  recording :: bool
  q :: "chunk list"
  frames :: "chunk list"
  stream :: "stream_state option"
  trace :: "event list"

text \<open>
  \<open>live\<close> lists the model objects that occupy memory: an object enters it when it is
  constructed and leaves it when \<open>gc.collect()\<close> runs while no global refers to it.
  (CPython frees most objects earlier, as soon as the last reference is dropped; the model
  keeps them until the collection, which is the later of the two moments.)
\<close>

text \<open>
  The collaborators the module calls but does not define: the file system, the selected
  output device, the recognizer (the value \<open>json.loads(rec.FinalResult())\<close> yields
  for a model and an audio buffer; \<open>None\<close> when the text is not JSON and
  \<open>json.loads\<close> raises), the punctuation model, and the tokenizers and translator.
\<close>

record env =
  APLAY_DEVICE :: string
  path_exists :: "string \<Rightarrow> bool"
  final_result :: "resource \<Rightarrow> chunk \<Rightarrow> json option"
  restore_punctuation :: "pystr \<Rightarrow> pystr"
  sp_encode :: "resource \<Rightarrow> pystr \<Rightarrow> pystr list"
  translate_batch :: "resource \<Rightarrow> pystr list \<Rightarrow> pystr list"
  sp_decode :: "resource \<Rightarrow> pystr list \<Rightarrow> pystr"

subsection \<open>Constants of the module\<close>

definition VOSK_EN :: string where
  "VOSK_EN = ''vosk_models/vosk-model-small-en-us-0.15''"

definition VOSK_ES :: string where
  "VOSK_ES = ''vosk_models/vosk-model-small-es-0.42''"

definition CT_EN_ES :: string where
  "CT_EN_ES = ''./CTranslate/en-es-ctranslate2''"

definition CT_ES_EN :: string where
  "CT_ES_EN = ''./CTranslate/es-en-ctranslate2''"

definition SP_EN_ES_SRC :: string where
  "SP_EN_ES_SRC = ''./CTranslate/opus-mt-en-es/source.spm''"

definition SP_EN_ES_TGT :: string where
  "SP_EN_ES_TGT = ''./CTranslate/opus-mt-en-es/target.spm''"

definition SP_ES_EN_SRC :: string where
  "SP_ES_EN_SRC = ''./CTranslate/opus-mt-es-en/source.spm''"

definition SP_ES_EN_TGT :: string where
  "SP_ES_EN_TGT = ''./CTranslate/opus-mt-es-en/target.spm''"

definition PIPER_ES :: string where
  "PIPER_ES = ''./piper_models/es_ES-davefx-medium.onnx''"

definition PIPER_EN :: string where
  "PIPER_EN = ''./piper_models/en_US-hfc_male-medium.onnx''"

definition PIPER_CONFIG_ES :: string where
  "PIPER_CONFIG_ES = ''./piper_models/es_ES-davefx-medium.onnx.json''"

definition PIPER_CONFIG_EN :: string where
  "PIPER_CONFIG_EN = ''./piper_models/en_US-hfc_male-medium.onnx.json''"

definition MODE_EN_ES_FILE :: string where
  "MODE_EN_ES_FILE = ''./en-es-mode-quieter.wav''"

definition MODE_ES_EN_FILE :: string where
  "MODE_ES_EN_FILE = ''./es-en-mode-quieter.wav''"

definition NO_AUDIO_EN_FILE :: string where
  "NO_AUDIO_EN_FILE = ''./no_audio-en-quieter.wav''"

definition NO_AUDIO_ES_FILE :: string where
  "NO_AUDIO_ES_FILE = ''./no_audio-es-quieter.wav''"

definition EXIT_FILE :: string where
  "EXIT_FILE = ''./exit1.wav''"

subsection \<open>Elementary effects\<close>

definition emit :: "event \<Rightarrow> state \<Rightarrow> state" where
  "emit e s = s\<lparr>trace := trace s @ [e]\<rparr>"

definition time_sleep :: "nat \<Rightarrow> state \<Rightarrow> state" where
  "time_sleep ms s = emit (Sleep ms) s"

text \<open>
  \<^verbatim>\<open>
  def play_audio_file(file_path):
      if os.path.exists(file_path):
          subprocess.run(["aplay", "-D", APLAY_DEVICE, file_path])
      else:
          print(f"Audio file missing: {file_path}")
  \<close>
\<close>

definition play_audio_file :: "env \<Rightarrow> string \<Rightarrow> state \<Rightarrow> state" where
  "play_audio_file env file_path s =
     (if path_exists env file_path then emit (Aplay (APLAY_DEVICE env) file_path) s else s)"

text \<open>
  A function body as the list of its statements, so that the states between two
  statements can be named: \<open>run_steps\<close> executes the list, \<open>points\<close> returns the
  state before the first statement, the state after each one, and so the final state last.
\<close>

fun run_steps :: "(state \<Rightarrow> state) list \<Rightarrow> state \<Rightarrow> state" where
  "run_steps [] s = s"
| "run_steps (f # fs) s = run_steps fs (f s)"

fun points :: "(state \<Rightarrow> state) list \<Rightarrow> state \<Rightarrow> state list" where
  "points [] s = [s]"
| "points (f # fs) s = s # points fs (f s)"

subsection \<open>The exit callback\<close>

text \<open>
  \<^verbatim>\<open>
  def exit_program():
      global exit_requested
      for _ in range(8):
          red_led.toggle()
          time.sleep(0.25)
      play_audio_file(EXIT_FILE)
      exit_requested = True
      print("\nExit button pressed. Cleaning up...")
  \<close>
\<close>

definition exit_program_steps :: "env \<Rightarrow> (state \<Rightarrow> state) list" where
  "exit_program_steps env =
     concat (replicate 8 [emit (LedToggle Red), time_sleep 250])
     @ [play_audio_file env EXIT_FILE, \<lambda>s. s\<lparr>exit_requested := True\<rparr>]"

definition exit_program :: "env \<Rightarrow> state \<Rightarrow> state" where
  "exit_program env s = run_steps (exit_program_steps env) s"

text \<open>
  The callback runs on a thread of its own.  \<open>exit_cb env fired\<close> is the whole callback
  running to completion when the exit button was pressed (\<open>fired\<close>), and nothing otherwise.
\<close>

definition exit_cb :: "env \<Rightarrow> bool \<Rightarrow> state \<Rightarrow> state" where
  "exit_cb env fired s = (if fired then exit_program env s else s)"

subsection \<open>Model lifecycle\<close>

definition referenced :: "state \<Rightarrow> resource list" where
  "referenced s = List.map_filter id [vosk_model s, translator s, sp_source s, sp_target s]"

definition gc_collect :: "state \<Rightarrow> state" where
  "gc_collect s = emit GcCollect (s\<lparr>live := referenced s\<rparr>)"

text \<open>
  \<^verbatim>\<open>
  def unload_models():
      global vosk_model, translator, sp_source, sp_target
      vosk_model = None
      translator = None
      sp_source = None
      sp_target = None
      gc.collect()
  \<close>
\<close>

definition unload_models_steps :: "(state \<Rightarrow> state) list" where
  "unload_models_steps =
     [\<lambda>s. s\<lparr>vosk_model := None\<rparr>,
      \<lambda>s. s\<lparr>translator := None\<rparr>,
      \<lambda>s. s\<lparr>sp_source := None\<rparr>,
      \<lambda>s. s\<lparr>sp_target := None\<rparr>,
      gc_collect]"

definition unload_models :: "state \<Rightarrow> state" where
  "unload_models s = run_steps unload_models_steps s"

text \<open>
  Constructing an object loads its files into memory and binds the global to it.  The two
  lines \<open>sp = spm.SentencePieceProcessor(); sp.load(path)\<close> are one step here: the
  processor between them holds no model yet.
\<close>

definition new_vosk_model :: "string \<Rightarrow> state \<Rightarrow> state" where
  "new_vosk_model path s =
     emit (Construct (VoskModel path))
       (s\<lparr>vosk_model := Some (VoskModel path), live := live s @ [VoskModel path]\<rparr>)"

definition new_translator :: "string \<Rightarrow> state \<Rightarrow> state" where
  "new_translator path s =
     emit (Construct (Translator path))
       (s\<lparr>translator := Some (Translator path), live := live s @ [Translator path]\<rparr>)"

definition new_sp_source :: "string \<Rightarrow> state \<Rightarrow> state" where
  "new_sp_source path s =
     emit (Construct (SentencePiece path))
       (s\<lparr>sp_source := Some (SentencePiece path), live := live s @ [SentencePiece path]\<rparr>)"

definition new_sp_target :: "string \<Rightarrow> state \<Rightarrow> state" where
  "new_sp_target path s =
     emit (Construct (SentencePiece path))
       (s\<lparr>sp_target := Some (SentencePiece path), live := live s @ [SentencePiece path]\<rparr>)"

text \<open>
  \<^verbatim>\<open>
  def load_models(direction):
      global vosk_model, translator, sp_source, sp_target, piper_voice, piper_config
      unload_models()
      if direction == "en_to_es":
          vosk_model = vosk.Model(VOSK_EN)
          translator = ctranslate2.Translator(CT_EN_ES, device="cpu")
          sp_source = spm.SentencePieceProcessor()
          sp_source.load(SP_EN_ES_SRC)
          sp_target = spm.SentencePieceProcessor()
          sp_target.load(SP_EN_ES_TGT)
          piper_voice = PIPER_ES
          piper_config = PIPER_CONFIG_ES
      elif direction == "es_to_en":
          ... the same with VOSK_ES, CT_ES_EN, SP_ES_EN_SRC, SP_ES_EN_TGT, PIPER_EN,
          PIPER_CONFIG_EN
  \<close>
\<close>

definition load_models_steps :: "string \<Rightarrow> (state \<Rightarrow> state) list" where
  "load_models_steps direction =
     unload_models_steps @
     (if direction = ''en_to_es'' then
        [new_vosk_model VOSK_EN,
         new_translator CT_EN_ES,
         new_sp_source SP_EN_ES_SRC,
         new_sp_target SP_EN_ES_TGT,
         \<lambda>s. s\<lparr>piper_voice := Some PIPER_ES\<rparr>,
         \<lambda>s. s\<lparr>piper_config := Some PIPER_CONFIG_ES\<rparr>]
      else if direction = ''es_to_en'' then
        [new_vosk_model VOSK_ES,
         new_translator CT_ES_EN,
         new_sp_source SP_ES_EN_SRC,
         new_sp_target SP_ES_EN_TGT,
         \<lambda>s. s\<lparr>piper_voice := Some PIPER_EN\<rparr>,
         \<lambda>s. s\<lparr>piper_config := Some PIPER_CONFIG_EN\<rparr>]
      else [])"

definition load_models :: "string \<Rightarrow> state \<Rightarrow> state" where
  "load_models direction s = run_steps (load_models_steps direction) s"

text \<open>
  A ModelSet is one recognizer model, one translator and two tokenizers.  At most one
  ModelSet is resident when memory holds no more than that.
\<close>

fun is_vosk :: "resource \<Rightarrow> bool" where
  "is_vosk (VoskModel p) = True"
| "is_vosk r = False"

fun is_translator :: "resource \<Rightarrow> bool" where
  "is_translator (Translator p) = True"
| "is_translator r = False"

fun is_tokenizer :: "resource \<Rightarrow> bool" where
  "is_tokenizer (SentencePiece p) = True"
| "is_tokenizer r = False"

definition at_most_one_model_set :: "state \<Rightarrow> bool" where
  "at_most_one_model_set s =
     (length (filter is_vosk (live s)) \<le> 1 \<and>
      length (filter is_translator (live s)) \<le> 1 \<and>
      length (filter is_tokenizer (live s)) \<le> 2)"

text \<open>The ModelSet of a direction, in the order it is constructed.\<close>

definition model_set :: "string \<Rightarrow> resource list" where
  "model_set direction =
     (if direction = ''en_to_es'' then
        [VoskModel VOSK_EN, Translator CT_EN_ES, SentencePiece SP_EN_ES_SRC,
         SentencePiece SP_EN_ES_TGT]
      else if direction = ''es_to_en'' then
        [VoskModel VOSK_ES, Translator CT_ES_EN, SentencePiece SP_ES_EN_SRC,
         SentencePiece SP_ES_EN_TGT]
      else [])"

subsection \<open>Direction and announcements\<close>

text \<open>
  \<^verbatim>\<open>
  def get_translation_direction():
      return "es_to_en" if direction_switch.value == 1 else "en_to_es"
  \<close>
  The argument is whether the switch reads 1.
\<close>

definition get_translation_direction :: "bool \<Rightarrow> string" where
  "get_translation_direction switch_is_1 = (if switch_is_1 then ''es_to_en'' else ''en_to_es'')"

text \<open>
  \<^verbatim>\<open>
  def play_mode_announcement(direction):
      file_path = MODE_ES_EN_FILE if direction == "es_to_en" else MODE_EN_ES_FILE
      play_audio_file(file_path)

  def play_no_audio(direction):
      if direction == "en_to_es":
          play_audio_file(NO_AUDIO_EN_FILE)
      else:
          play_audio_file(NO_AUDIO_ES_FILE)
  \<close>
\<close>

definition play_mode_announcement :: "env \<Rightarrow> string \<Rightarrow> state \<Rightarrow> state" where
  "play_mode_announcement env direction s =
     play_audio_file env (if direction = ''es_to_en'' then MODE_ES_EN_FILE else MODE_EN_ES_FILE) s"

definition play_no_audio :: "env \<Rightarrow> string \<Rightarrow> state \<Rightarrow> state" where
  "play_no_audio env direction s =
     (if direction = ''en_to_es'' then play_audio_file env NO_AUDIO_EN_FILE s
      else play_audio_file env NO_AUDIO_ES_FILE s)"

text \<open>
  The three lines the main loop runs wherever it acts on a changed switch:
  \<^verbatim>\<open>
      current_direction = direction_changed
      load_models(current_direction)
      play_mode_announcement(current_direction)
  \<close>
\<close>

definition switch_direction :: "env \<Rightarrow> string \<Rightarrow> state \<Rightarrow> state" where
  "switch_direction env new_direction s =
     play_mode_announcement env new_direction
       (load_models new_direction (s\<lparr>current_direction := new_direction\<rparr>))"

subsection \<open>Strings and JSON values\<close>

text \<open>
  The code points \<open>str.isspace\<close> accepts, which are the ones \<open>str.strip()\<close> removes:
  U+0009..U+000D, U+001C..U+0020, U+0085, U+00A0, U+1680, U+2000..U+200A, U+2028, U+2029,
  U+202F, U+205F and U+3000.
\<close>

definition py_isspace :: "nat \<Rightarrow> bool" where
  "py_isspace c =
     ((9 \<le> c \<and> c \<le> 13) \<or> (28 \<le> c \<and> c \<le> 32) \<or> c = 133 \<or> c = 160 \<or> c = 5760 \<or>
      (8192 \<le> c \<and> c \<le> 8202) \<or> c = 8232 \<or> c = 8233 \<or> c = 8239 \<or> c = 8287 \<or> c = 12288)"

definition py_strip :: "pystr \<Rightarrow> pystr" where
  "py_strip t = rev (dropWhile py_isspace (rev (dropWhile py_isspace t)))"

text \<open>The key \<open>"text"\<close> and the token \<open>"</s>"\<close>, as code points.\<close>

definition TEXT_KEY :: pystr where
  "TEXT_KEY = [116, 101, 120, 116]"

definition EOS :: pystr where
  "EOS = [60, 47, 115, 62]"

text \<open>
  \<open>value.get(key, default)\<close>: a dict answers; any other JSON value (a list, a string,
  a number, a boolean, \<open>None\<close>) has no attribute \<open>get\<close>.
\<close>

fun py_get :: "json \<Rightarrow> pystr \<Rightarrow> json \<Rightarrow> py_error + json" where
  "py_get (JObject items) key dflt =
     (case map_of items key of None \<Rightarrow> Inr dflt | Some v \<Rightarrow> Inr v)"
| "py_get v key dflt = Inl AttributeError"


subsection \<open>Pipeline stages\<close>

text \<open>
  \<^verbatim>\<open>
  def transcribe(audio, samplerate):
      rec = vosk.KaldiRecognizer(vosk_model, samplerate)
      rec.AcceptWaveform(audio.tobytes())
      result = json.loads(rec.FinalResult())
      return result.get("text", "")
  \<close>
  With no model loaded the recognizer cannot be built (the constructor reads an attribute
  of \<open>None\<close>).
\<close>

definition transcribe :: "env \<Rightarrow> chunk \<Rightarrow> nat \<Rightarrow> state \<Rightarrow> (py_error + json) \<times> state" where
  "transcribe env audio samplerate s =
     (case vosk_model s of
        None \<Rightarrow> (Inl AttributeError, s)
      | Some m \<Rightarrow>
          (let s1 = emit (Recognize m samplerate audio) s in
           case final_result env m audio of
             None \<Rightarrow> (Inl JSONDecodeError, s1)
           | Some result \<Rightarrow> (py_get result TEXT_KEY (JString []), s1)))"

text \<open>
  \<^verbatim>\<open>
  def translate(text):
      tokens = sp_source.encode(text, out_type=str)
      tokens.append("</s>")
      results = translator.translate_batch([tokens])
      return sp_target.decode(results[0].hypotheses[0])
  \<close>
  \<open>translate_batch env\<close> stands for the first hypothesis of the first result.
\<close>

definition translate :: "env \<Rightarrow> pystr \<Rightarrow> state \<Rightarrow> (py_error + pystr) \<times> state" where
  "translate env text s =
     (case sp_source s of
        None \<Rightarrow> (Inl AttributeError, s)
      | Some src \<Rightarrow>
          (let tokens = sp_encode env src text @ [EOS] in
           case translator s of
             None \<Rightarrow> (Inl AttributeError, s)
           | Some tr \<Rightarrow>
               (let s1 = emit (TranslateBatch tr tokens) s in
                case sp_target s1 of
                  None \<Rightarrow> (Inl AttributeError, s1)
                | Some tgt \<Rightarrow> (Inr (sp_decode env tgt (translate_batch env tr tokens)), s1))))"

text \<open>
  \<^verbatim>\<open>
  def speak(text):
      piper_proc = subprocess.Popen([PIPER_BIN, "--model", piper_voice,
                                     "--config", piper_config, "--output-raw"], ...)
      aplay_proc = subprocess.Popen(["aplay", ...], stdin=piper_proc.stdout)
      piper_proc.stdin.write(text.encode("utf-8"))
      piper_proc.stdin.close()
      aplay_proc.wait()
      piper_proc.wait()
  \<close>
  The argument list holds \<open>piper_voice\<close> and \<open>piper_config\<close>; \<open>Popen\<close> refuses
  \<open>None\<close> there.  \<open>text.encode("utf-8")\<close> raises on a surrogate code point
  (U+D800..U+DFFF); the two processes are running by then but have been given nothing to
  say.  \<open>Speak\<close> is the pipeline that received the text and played it to the end.
\<close>

definition is_surrogate :: "nat \<Rightarrow> bool" where
  "is_surrogate c = (55296 \<le> c \<and> c \<le> 57343)"

definition speak :: "env \<Rightarrow> pystr \<Rightarrow> state \<Rightarrow> py_error option \<times> state" where
  "speak env text s =
     (case piper_voice s of
        None \<Rightarrow> (Some TypeError, s)
      | Some voice \<Rightarrow>
          (case piper_config s of
             None \<Rightarrow> (Some TypeError, s)
           | Some config \<Rightarrow>
               if list_ex is_surrogate text then (Some UnicodeEncodeError, s)
               else (None, emit (Speak voice config text) s)))"

subsection \<open>Audio capture\<close>

text \<open>
  \<^verbatim>\<open>
  def callback(indata, frames_count, time_info, status):
      if status:
          print(status, file=sys.stderr)
      if recording:
          q.put(indata.copy())
  \<close>
  \<open>recording\<close> and \<open>q\<close> are module globals, read when the callback runs.  An
  invocation has two steps on the audio thread, the test of \<open>recording\<close> and the
  \<open>put\<close>; nothing keeps the main thread from running between them.  \<open>callback\<close> is
  an invocation that the main thread does not interrupt.
\<close>

definition callback_test :: "state \<Rightarrow> bool" where
  "callback_test s = recording s"

definition callback_put :: "chunk \<Rightarrow> state \<Rightarrow> state" where
  "callback_put indata s = s\<lparr>q := q s @ [indata]\<rparr>"

definition callback :: "state \<Rightarrow> chunk \<Rightarrow> state" where
  "callback s indata = (if callback_test s then callback_put indata s else s)"

text \<open>
  The audio library invokes the callback once per buffer, in order, and only while the
  stream is started.
\<close>

definition deliver :: "chunk list \<Rightarrow> state \<Rightarrow> state" where
  "deliver buffers s = (if stream s = Some Started then foldl callback s buffers else s)"

text \<open>
  \<^verbatim>\<open>
  try:
      stream = sd.InputStream(samplerate=16000, channels=1, dtype='int16',
                              device=INPUT_DEVICE, callback=callback)
      stream.start()
  except Exception as e:
      print(f"Failed to open input stream on {INPUT_DEVICE} with 16000 Hz: {e}")
  \<close>
  When the constructor raises, the assignment does not happen and \<open>stream\<close> keeps what
  it was bound to before, if anything.
\<close>

datatype open_outcome = Opens | ConstructorRaises | StartRaises

fun open_stream :: "open_outcome \<Rightarrow> state \<Rightarrow> state" where
  "open_stream Opens s = s\<lparr>stream := Some Started\<rparr>"
| "open_stream ConstructorRaises s = s"
| "open_stream StartRaises s = s\<lparr>stream := Some Constructed\<rparr>"

text \<open>
  The \<open>finally\<close> block after the recording wait:
  \<^verbatim>\<open>
  finally:
      recording = False
      stream.stop()
      stream.close()
      red_led.off()
  \<close>
  What the audio thread does while the block runs is a \<open>stop_window\<close>:
  \<open>in_flight\<close> is the buffer of an invocation of the callback that tested
  \<open>recording\<close> before the assignment and has not yet executed its \<open>put\<close>;
  \<open>after_clear\<close> are the buffers of the invocations that start after the assignment.
  \<open>stream.stop()\<close> returns only when the audio thread has left the callback, so all of
  them run before it returns.  \<open>stop\<close> and \<open>close\<close> ignore the library's error
  codes, so they do not raise on a stream that never started or is already closed; an
  unbound name raises.
\<close>

record stop_window =
  in_flight :: "chunk option"
  after_clear :: "chunk list"

text \<open>
  The second step of the invocation in flight: the \<open>put\<close> happens when the invocation
  had passed its test (\<open>passed\<close>), whatever \<open>recording\<close> is by now.
\<close>

definition finish_in_flight :: "bool \<Rightarrow> chunk option \<Rightarrow> state \<Rightarrow> state" where
  "finish_in_flight passed pending s =
     (case pending of
        None \<Rightarrow> s
      | Some indata \<Rightarrow> if passed then callback_put indata s else s)"

definition stop_capture :: "stop_window \<Rightarrow> state \<Rightarrow> py_error option \<times> state" where
  "stop_capture late s =
     (let passed = (stream s = Some Started \<and> callback_test s);
          s1 = s\<lparr>recording := False\<rparr>
      in
      case stream s1 of
        None \<Rightarrow> (Some NameError, s1)
      | Some st \<Rightarrow>
          (let s2 = finish_in_flight passed (in_flight late) s1;
               s3 = deliver (after_clear late) s2;
               s4 = s3\<lparr>stream := Some Closed\<rparr>
           in (None, emit (LedOff Red) s4)))"

text \<open>
  \<^verbatim>\<open>
  while not q.empty():
      frames.append(q.get())
  audio = np.concatenate(frames, axis=0) if frames else np.array([], dtype='int16')
  \<close>
\<close>

fun drain :: "chunk list \<Rightarrow> chunk list \<Rightarrow> chunk list \<times> chunk list" where
  "drain [] fs = ([], fs)"
| "drain (c # cs) fs = drain cs (fs @ [c])"

definition drain_queue :: "state \<Rightarrow> state" where
  "drain_queue s = (case drain (q s) (frames s) of (q', fs) \<Rightarrow> s\<lparr>q := q', frames := fs\<rparr>)"

definition np_concatenate :: "chunk list \<Rightarrow> chunk" where
  "np_concatenate fs = (if fs \<noteq> [] then concat fs else [])"

subsection \<open>Polling loops\<close>

text \<open>
  What the environment does during one iteration of a polling loop.  The exit callback
  may complete before the iteration tests \<open>exit_requested\<close> (\<open>exit_early\<close>) or
  right after that test, before the iteration acts on what it reads from the button and
  the switch (\<open>exit_late\<close>); \<open>button_active\<close> and
  \<open>switch_is_1\<close> are what the iteration reads from the record button and the
  direction switch; \<open>delivered\<close> are the audio buffers that arrived since the iteration
  before.  A loop that uses up its list without resolving is still polling: the result is
  \<open>None\<close>.
\<close>

record poll =
  exit_early :: bool
  button_active :: bool
  switch_is_1 :: bool
  exit_late :: bool
  delivered :: "chunk list"

text \<open>
  \<^verbatim>\<open>
  def wait_for_button_or_switch_change(last_direction):
      while not exit_requested:
          if record_button.is_active:
              return None
          new_direction = get_translation_direction()
          if new_direction != last_direction:
              return new_direction
          time.sleep(0.01)
      return "exit"
  \<close>
\<close>

fun wait_for_button_or_switch_change ::
  "env \<Rightarrow> string \<Rightarrow> poll list \<Rightarrow> state \<Rightarrow> (string option \<times> state) option" where
  "wait_for_button_or_switch_change env last_direction [] s =
     (if exit_requested s then Some (Some ''exit'', s) else None)"
| "wait_for_button_or_switch_change env last_direction (x # xs) s =
     (let s1 = exit_cb env (exit_early x) s in
      if \<not> exit_requested s1 then
        (let s2 = exit_cb env (exit_late x) s1 in
         if button_active x then Some (None, s2)
         else
           (let new_direction = get_translation_direction (switch_is_1 x) in
            if new_direction \<noteq> last_direction then Some (Some new_direction, s2)
            else wait_for_button_or_switch_change env last_direction xs (time_sleep 10 s2)))
      else Some (Some ''exit'', s1))"

text \<open>
  \<^verbatim>\<open>
  def wait_for_button_release_or_switch_change(last_direction):
      while record_button.is_active and not exit_requested:
          new_direction = get_translation_direction()
          if new_direction != last_direction:
              return new_direction
          time.sleep(0.01)
      if exit_requested:
          return "exit"
      return None
  \<close>
\<close>

fun wait_for_button_release_or_switch_change ::
  "env \<Rightarrow> string \<Rightarrow> poll list \<Rightarrow> state \<Rightarrow> (string option \<times> state) option" where
  "wait_for_button_release_or_switch_change env last_direction [] s =
     (if exit_requested s then Some (Some ''exit'', s) else None)"
| "wait_for_button_release_or_switch_change env last_direction (x # xs) s =
     (let s1 = deliver (delivered x) (exit_cb env (exit_early x) s);
          s2 = exit_cb env (exit_late x) s1
      in
      if button_active x \<and> \<not> exit_requested s1 then
        (let new_direction = get_translation_direction (switch_is_1 x) in
         if new_direction \<noteq> last_direction then Some (Some new_direction, s2)
         else wait_for_button_release_or_switch_change env last_direction xs
                (time_sleep 10 s2))
      else if exit_requested s2 then Some (Some ''exit'', s2)
      else Some (None, s2))"

text \<open>
  The loop that waits for the decision to play the translation:
  \<^verbatim>\<open>
  play_translation = False
  while not exit_requested:
      if record_button.is_active:
          play_translation = True
          break
      new_direction = get_translation_direction()
      if new_direction != current_direction:
          green_led.off()
          current_direction = new_direction
          load_models(current_direction)
          play_mode_announcement(current_direction)
          play_translation = False
          break
      time.sleep(0.01)
  \<close>
  The result is \<open>play_translation\<close>.  The flag is tested once per iteration, at the
  head of the loop; the branch that switches the direction does not test it again.
\<close>

fun await_playback_decision :: "env \<Rightarrow> poll list \<Rightarrow> state \<Rightarrow> (bool \<times> state) option" where
  "await_playback_decision env [] s = (if exit_requested s then Some (False, s) else None)"
| "await_playback_decision env (x # xs) s =
     (let s1 = exit_cb env (exit_early x) s in
      if \<not> exit_requested s1 then
        (let s2 = exit_cb env (exit_late x) s1 in
         if button_active x then Some (True, s2)
         else
           (let new_direction = get_translation_direction (switch_is_1 x) in
            if new_direction \<noteq> current_direction s2
            then Some (False, switch_direction env new_direction (emit (LedOff Green) s2))
            else await_playback_decision env xs (time_sleep 10 s2)))
      else Some (False, s1))"

subsection \<open>The main loop\<close>

text \<open>
  The environment of one pass through the body of the main loop: the polls offered to
  each of the three waits, the outcome of opening the input stream, and what the audio
  thread does while the stream is being stopped.
\<close>

record cycle =
  idle_polls :: "poll list"
  open_result :: open_outcome
  rec_polls :: "poll list"
  late_audio :: stop_window
  await_polls :: "poll list"

text \<open>
  How a pass ends: \<open>continue\<close> (or the end of the body), \<open>break\<close>, or an exception
  that no handler inside the loop catches.
\<close>

datatype outcome = Continue state | Break state | Raise py_error state

text \<open>
  \<open>if direction_changed:\<close> is false for \<open>None\<close> and for the empty string; the
  bodies below write that test as a case distinction.
\<close>

text \<open>
  From the translation to the end of the body:
  \<^verbatim>\<open>
  green_led.on()
  play_translation = False
  while not exit_requested: ...
  green_led.off()
  if exit_requested:
      break
  if not play_translation:
      continue
  speak(translation)
  \<close>
\<close>

definition playback_phase :: "env \<Rightarrow> poll list \<Rightarrow> pystr \<Rightarrow> state \<Rightarrow> outcome option" where
  "playback_phase env polls translation s =
     (case await_playback_decision env polls (emit (LedOn Green) s) of
        None \<Rightarrow> None
      | Some (play_translation, s1) \<Rightarrow>
          (let s2 = emit (LedOff Green) s1 in
           if exit_requested s2 then Some (Break s2)
           else if \<not> play_translation then Some (Continue s2)
           else (case speak env translation s2 of
                   (Some e, s3) \<Rightarrow> Some (Raise e s3)
                 | (None, s3) \<Rightarrow> Some (Continue s3))))"

text \<open>
  From the return of \<open>transcribe\<close> to the translation; \<open>polls\<close> are those offered
  to the wait that follows the translation, and the argument is what the call of
  \<open>transcribe\<close> produced (its value or its exception, and the state it left):
  \<^verbatim>\<open>
  red_led.off()
  if not text.strip():
      play_no_audio(current_direction)
      continue
  text = punct_model.restore_punctuation(text)
  red_led.on()
  translation = translate(text)
  red_led.off()
  \<close>
  \<open>text\<close> is whatever \<open>transcribe\<close> returned; \<open>text.strip()\<close> exists only
  for a string and raises AttributeError for every other JSON value.
\<close>

definition process_text ::
  "env \<Rightarrow> poll list \<Rightarrow> (py_error + json) \<times> state \<Rightarrow> outcome option" where
  "process_text env polls transcribed =
     (case transcribed of
        (Inl e, s2) \<Rightarrow> Some (Raise e s2)
      | (Inr text, s2) \<Rightarrow>
          (let s3 = emit (LedOff Red) s2 in
           case text of
             JString t \<Rightarrow>
               if py_strip t = [] then
                 Some (Continue (play_no_audio env (current_direction s3) s3))
               else
                 (let s4 = emit (Punctuate t) s3;
                      punctuated = restore_punctuation env t
                  in
                  case translate env punctuated (emit (LedOn Red) s4) of
                    (Inl e, s5) \<Rightarrow> Some (Raise e s5)
                  | (Inr translation, s5) \<Rightarrow>
                      playback_phase env polls translation (emit (LedOff Red) s5))
           | _ \<Rightarrow> Some (Raise AttributeError s3)))"

text \<open>
  From the drain of the queue to the call of \<open>transcribe\<close>:
  \<^verbatim>\<open>
  while not q.empty():
      frames.append(q.get())
  audio = np.concatenate(frames, axis=0) if frames else np.array([], dtype='int16')
  if audio.size == 0:
      play_no_audio(current_direction)
      continue
  red_led.on()
  text = transcribe(audio, 16000)
  \<close>
\<close>

definition process_audio :: "env \<Rightarrow> poll list \<Rightarrow> state \<Rightarrow> outcome option" where
  "process_audio env polls s =
     (let s1 = drain_queue s;
          audio = np_concatenate (frames s1)
      in
      if length audio = 0 then Some (Continue (play_no_audio env (current_direction s1) s1))
      else process_text env polls (transcribe env audio 16000 (emit (LedOn Red) s1)))"

text \<open>
  From the creation of the queue to the end of the recording:
  \<^verbatim>\<open>
  q = queue.Queue()
  frames = []
  recording = True
  ... open the stream ...
  red_led.on()
  direction_changed = None
  try:
      direction_changed = wait_for_button_release_or_switch_change(current_direction)
  finally:
      ... stop the capture ...
  if exit_requested or direction_changed == "exit":
      break
  elif direction_changed:
      current_direction = direction_changed
      load_models(current_direction)
      play_mode_announcement(current_direction)
      continue
  \<close>
\<close>

definition recording_phase :: "env \<Rightarrow> cycle \<Rightarrow> state \<Rightarrow> outcome option" where
  "recording_phase env c s =
     (let s1 = s\<lparr>q := [], frames := [], recording := True\<rparr>;
          s2 = open_stream (open_result c) s1;
          s3 = emit (LedOn Red) s2
      in
      case wait_for_button_release_or_switch_change env (current_direction s3) (rec_polls c) s3 of
        None \<Rightarrow> None
      | Some (direction_changed, s4) \<Rightarrow>
          (case stop_capture (late_audio c) s4 of
             (Some e, s5) \<Rightarrow> Some (Raise e s5)
           | (None, s5) \<Rightarrow>
               if exit_requested s5 \<or> direction_changed = Some ''exit'' then Some (Break s5)
               else
                 (case direction_changed of
                    None \<Rightarrow> process_audio env (await_polls c) s5
                  | Some d \<Rightarrow>
                      if d \<noteq> [] then Some (Continue (switch_direction env d s5))
                      else process_audio env (await_polls c) s5)))"

text \<open>
  The body of \<open>while not exit_requested:\<close>, from its first line:
  \<^verbatim>\<open>
  red_led.off()
  green_led.off()
  direction_changed = wait_for_button_or_switch_change(current_direction)
  if exit_requested or direction_changed == "exit":
      break
  if direction_changed:
      current_direction = direction_changed
      load_models(current_direction)
      play_mode_announcement(current_direction)
      continue
  \<close>
\<close>

definition main_body :: "env \<Rightarrow> cycle \<Rightarrow> state \<Rightarrow> outcome option" where
  "main_body env c s =
     (let s1 = emit (LedOff Green) (emit (LedOff Red) s) in
      case wait_for_button_or_switch_change env (current_direction s1) (idle_polls c) s1 of
        None \<Rightarrow> None
      | Some (direction_changed, s2) \<Rightarrow>
          if exit_requested s2 \<or> direction_changed = Some ''exit'' then Some (Break s2)
          else
            (case direction_changed of
               None \<Rightarrow> recording_phase env c s2
             | Some d \<Rightarrow>
                 if d \<noteq> [] then Some (Continue (switch_direction env d s2))
                 else recording_phase env c s2))"

text \<open>
  The loop itself, one \<open>cycle\<close> per pass.  The result is the exception that left the
  loop, if any, and the final state; \<open>None\<close> when the cycles run out while the loop is
  still running.
\<close>

fun main_loop :: "env \<Rightarrow> cycle list \<Rightarrow> state \<Rightarrow> (py_error option \<times> state) option" where
  "main_loop env [] s = (if exit_requested s then Some (None, s) else None)"
| "main_loop env (c # cs) s =
     (if exit_requested s then Some (None, s)
      else
        (case main_body env c s of
           None \<Rightarrow> None
         | Some (Continue s') \<Rightarrow> main_loop env cs s'
         | Some (Break s') \<Rightarrow> Some (None, s')
         | Some (Raise e s') \<Rightarrow> Some (Some e, s')))"

text \<open>
  The module's top level: the globals as the module initialises them, the three lines
  before the loop, and the \<open>finally\<close> clause that powers the device off.
  \<^verbatim>\<open>
  try:
      current_direction = get_translation_direction()
      load_models(current_direction)
      play_mode_announcement(current_direction)
      while not exit_requested: ...
  except KeyboardInterrupt: ...
  finally:
      red_led.off()
      green_led.off()
      os.system("sudo shutdown -h now")
  \<close>
\<close>

definition initial_state :: state where
  "initial_state =
     \<lparr>current_direction = [], vosk_model = None, translator = None, sp_source = None,
      sp_target = None, piper_voice = None, piper_config = None, live = [],
      exit_requested = False, recording = False, q = [], frames = [], stream = None,
      trace = []\<rparr>"

definition startup :: "env \<Rightarrow> bool \<Rightarrow> state \<Rightarrow> state" where
  "startup env switch_at_start s =
     switch_direction env (get_translation_direction switch_at_start) s"

definition shutdown :: "state \<Rightarrow> state" where
  "shutdown s = emit Shutdown (emit (LedOff Green) (emit (LedOff Red) s))"

definition program ::
  "env \<Rightarrow> bool \<Rightarrow> cycle list \<Rightarrow> (py_error option \<times> state) option" where
  "program env switch_at_start cycles =
     (case main_loop env cycles (startup env switch_at_start initial_state) of
        None \<Rightarrow> None
      | Some (e, s) \<Rightarrow> Some (e, shutdown s))"

subsection \<open>Observations on a run\<close>

fun is_recognize :: "event \<Rightarrow> bool" where
  "is_recognize (Recognize m r a) = True"
| "is_recognize e = False"

fun is_translate :: "event \<Rightarrow> bool" where
  "is_translate (TranslateBatch m ts) = True"
| "is_translate e = False"

fun is_load :: "event \<Rightarrow> bool" where
  "is_load (Construct r) = True"
| "is_load GcCollect = True"
| "is_load e = False"

fun is_aplay :: "event \<Rightarrow> bool" where
  "is_aplay (Aplay d f) = True"
| "is_aplay e = False"

definition recognizer_calls :: "state \<Rightarrow> nat" where
  "recognizer_calls s = length (filter is_recognize (trace s))"

definition translator_calls :: "state \<Rightarrow> nat" where
  "translator_calls s = length (filter is_translate (trace s))"

definition loads :: "state \<Rightarrow> event list" where
  "loads s = filter is_load (trace s)"

definition played :: "state \<Rightarrow> event list" where
  "played s = filter is_aplay (trace s)"

fun sleep_ms :: "event \<Rightarrow> nat" where
  "sleep_ms (Sleep ms) = ms"
| "sleep_ms e = 0"

definition slept :: "state \<Rightarrow> nat" where
  "slept s = sum_list (map sleep_ms (trace s))"

definition toggles :: "state \<Rightarrow> nat" where
  "toggles s = length (filter (\<lambda>e. e = LedToggle Red) (trace s))"

text \<open>The sound files \<open>play_no_audio\<close> and \<open>play_mode_announcement\<close> select.\<close>

definition no_audio_file :: "string \<Rightarrow> string" where
  "no_audio_file d = (if d = ''en_to_es'' then NO_AUDIO_EN_FILE else NO_AUDIO_ES_FILE)"

definition mode_file :: "string \<Rightarrow> string" where
  "mode_file d = (if d = ''es_to_en'' then MODE_ES_EN_FILE else MODE_EN_ES_FILE)"

text \<open>
  Whether a switch of direction took place between two states: a switch sets
  \<open>current_direction\<close>, collects and constructs models, and plays a mode announcement.
  \<open>no_switch s s'\<close> says that none of this happened on the way from \<open>s\<close> to
  \<open>s'\<close>.
\<close>

fun is_mode_announcement :: "event \<Rightarrow> bool" where
  "is_mode_announcement (Aplay d f) = (f = MODE_EN_ES_FILE \<or> f = MODE_ES_EN_FILE)"
| "is_mode_announcement e = False"

definition announced :: "state \<Rightarrow> event list" where
  "announced s = filter is_mode_announcement (trace s)"

definition no_switch :: "state \<Rightarrow> state \<Rightarrow> bool" where
  "no_switch s s' =
     (current_direction s' = current_direction s \<and> live s' = live s \<and>
      vosk_model s' = vosk_model s \<and> translator s' = translator s \<and>
      sp_source s' = sp_source s \<and> sp_target s' = sp_target s \<and>
      loads s' = loads s \<and> announced s' = announced s)"

text \<open>
  What the \<open>finally\<close> block of a recording can still add to the queue after it has
  cleared \<open>recording\<close>: the buffer of an invocation of the callback that passed its
  test before the assignment, on a stream that is running.
\<close>

definition in_flight_put :: "stop_window \<Rightarrow> state \<Rightarrow> chunk list" where
  "in_flight_put w s =
     (case in_flight w of
        None \<Rightarrow> []
      | Some indata \<Rightarrow> if stream s = Some Started \<and> callback_test s then [indata] else [])"

text \<open>What the exit callback adds to the trace.\<close>

definition exit_events :: "env \<Rightarrow> event list" where
  "exit_events env =
     concat (replicate 8 [LedToggle Red, Sleep 250])
     @ (if path_exists env EXIT_FILE then [Aplay (APLAY_DEVICE env) EXIT_FILE] else [])"

text \<open>
  Polls of a recording that runs its course: the button is held, the switch stays where
  it was and the exit button is not pressed; then the button is released.
\<close>

definition holding :: "string \<Rightarrow> poll \<Rightarrow> bool" where
  "holding last_direction x =
     (button_active x \<and> \<not> exit_early x \<and> \<not> exit_late x \<and>
      get_translation_direction (switch_is_1 x) = last_direction)"

definition releasing :: "poll \<Rightarrow> bool" where
  "releasing x = (\<not> button_active x \<and> \<not> exit_early x \<and> \<not> exit_late x)"

text \<open>The state an outcome carries, and whether the loop goes on to its next pass.\<close>

fun final_state :: "outcome \<Rightarrow> state" where
  "final_state (Continue s) = s"
| "final_state (Break s) = s"
| "final_state (Raise e s) = s"

fun raised :: "outcome \<Rightarrow> py_error option" where
  "raised (Raise e s) = Some e"
| "raised out = None"

fun is_continue :: "outcome \<Rightarrow> bool" where
  "is_continue (Continue s) = True"
| "is_continue out = False"

subsection \<open>A concrete environment\<close>

text \<open>
  An environment and inputs on which the model can be evaluated: every sound file exists,
  the recognizer answers \<open>{"text": "hi"}\<close>, punctuation restoration appends a full
  stop, the tokenizer yields the text as one token and the translator returns its input
  without the end-of-sentence token.
\<close>

definition bench_env :: env where
  "bench_env =
     \<lparr>APLAY_DEVICE = ''plughw:3,0'',
      path_exists = (\<lambda>p. True),
      final_result = (\<lambda>m a. Some (JObject [(TEXT_KEY, JString [104, 105])])),
      restore_punctuation = (\<lambda>t. t @ [46]),
      sp_encode = (\<lambda>m t. [t]),
      translate_batch = (\<lambda>m ts. butlast ts),
      sp_decode = (\<lambda>m ts. concat ts)\<rparr>"

text \<open>
  The same environment with a recognizer that hears only white space (a space and a
  tab), and with one whose final result is the JSON text \<open>[]\<close>.
\<close>

definition blank_env :: env where
  "blank_env = bench_env\<lparr>final_result := (\<lambda>m a. Some (JObject [(TEXT_KEY, JString [32, 9])]))\<rparr>"

definition array_env :: env where
  "array_env = bench_env\<lparr>final_result := (\<lambda>m a. Some (JArray []))\<rparr>"

text \<open>And with a recognizer whose final result is not JSON at all.\<close>

definition garbled_env :: env where
  "garbled_env = bench_env\<lparr>final_result := (\<lambda>m a. None)\<rparr>"

text \<open>Polls: nothing touched, the record button held, and the switch moved to 1.\<close>

definition quiet :: poll where
  "quiet = \<lparr>exit_early = False, button_active = False, switch_is_1 = False,
            exit_late = False, delivered = []\<rparr>"

definition held :: "chunk list \<Rightarrow> poll" where
  "held buffers = \<lparr>exit_early = False, button_active = True, switch_is_1 = False,
                   exit_late = False, delivered = buffers\<rparr>"

definition released :: "chunk list \<Rightarrow> poll" where
  "released buffers = \<lparr>exit_early = False, button_active = False, switch_is_1 = False,
                       exit_late = False, delivered = buffers\<rparr>"

definition flipped :: "bool \<Rightarrow> poll" where
  "flipped button = \<lparr>exit_early = False, button_active = button, switch_is_1 = True,
                     exit_late = False, delivered = []\<rparr>"

text \<open>
  One pass in which the button is pressed, held while three buffers arrive, and released;
  the translation is then played on a second press.  One more buffer arrives while the
  stream is being stopped, in an invocation of the callback that starts after
  \<open>recording = False\<close>.
\<close>

definition one_recording :: cycle where
  "one_recording =
     \<lparr>idle_polls = [quiet, held []],
      open_result = Opens,
      rec_polls = [held [[1, 2]], held [[3]], released [[4, 5]]],
      late_audio = \<lparr>in_flight = None, after_clear = [[6]]\<rparr>,
      await_polls = [quiet, held []]\<rparr>"

text \<open>
  The same pass when the audio thread is inside the callback at the moment the button is
  released: the invocation has tested \<open>recording\<close> and holds the buffer \<open>[6]\<close>,
  the main thread assigns \<open>recording = False\<close>, and the invocation then runs its
  \<open>put\<close>.  The buffer \<open>[7]\<close> arrives in an invocation that starts afterwards.
\<close>

definition racing_recording :: cycle where
  "racing_recording =
     one_recording\<lparr>late_audio := \<lparr>in_flight = Some [6], after_clear = [[7]]\<rparr>\<rparr>"

text \<open>
  Polls in which the switch reads 1 and the exit callback completes, before the
  iteration's test of the flag or after it.
\<close>

definition exit_and_flip :: "bool \<Rightarrow> poll" where
  "exit_and_flip button = \<lparr>exit_early = True, button_active = button, switch_is_1 = True,
                           exit_late = False, delivered = []\<rparr>"

definition flip_then_exit :: "bool \<Rightarrow> poll" where
  "flip_then_exit button = \<lparr>exit_early = False, button_active = button, switch_is_1 = True,
                            exit_late = True, delivered = []\<rparr>"

text \<open>
  A pass like \<open>one_recording\<close> up to the translation.  In the second iteration of the
  wait that follows, the exit callback completes right after the test of the flag, and
  the switch, moved during the sleep before, reads 1.
\<close>

definition exit_during_playback_wait :: cycle where
  "exit_during_playback_wait = one_recording\<lparr>await_polls := [quiet, flip_then_exit False]\<rparr>"

text \<open>
  A pass in which the switch is moved while the button is held, and one in which the
  input stream cannot be constructed.
\<close>

definition interrupted_recording :: cycle where
  "interrupted_recording = one_recording\<lparr>rec_polls := [held [[1, 2]], flipped True]\<rparr>"

definition no_microphone :: cycle where
  "no_microphone =
     \<lparr>idle_polls = [held []],
      open_result = ConstructorRaises,
      rec_polls = [held [], released []],
      late_audio = \<lparr>in_flight = None, after_clear = []\<rparr>,
      await_polls = []\<rparr>"

text \<open>The same pass when the switch is moved while the button is held.\<close>

definition no_microphone_flipped :: cycle where
  "no_microphone_flipped = no_microphone\<lparr>rec_polls := [held [], flipped True]\<rparr>"

text \<open>The state in which the main loop starts when the switch reads 0.\<close>

definition ready :: state where
  "ready = startup bench_env False initial_state"

section \<open>Properties\<close>

subsection \<open>Helper facts\<close>

lemma points_not_empty: "points fs s \<noteq> []"
  by (cases fs) simp_all

lemma run_steps_last_points: "run_steps fs s = last (points fs s)"
  by (induction fs arbitrary: s) (simp_all add: points_not_empty)

subsection \<open>The exit callback\<close>

text \<open>
  C9.  \<open>exit_program\<close> assigns the exit flag in its last step.  At every point before
  that step the flag has the value it had when the callback started, so a polling loop
  that reads it meanwhile sees no exit request.  By then the red LED was toggled exactly
  8 times, each toggle followed by a sleep of 250 ms (2000 ms in all), and the call that
  plays the exit sound has returned (aplay runs only when the file exists): the trace just
  before the assignment is already the final trace.  (In the source one \<open>print\<close>
  follows the assignment; console output is outside the model.)
\<close>

theorem exit_program_sets_flag_last:
  "list_all (\<lambda>s'. exit_requested s' = exit_requested s)
     (butlast (points (exit_program_steps env) s))
   \<and> last (points (exit_program_steps env) s) = exit_program env s
   \<and> exit_requested (exit_program env s)
   \<and> trace (exit_program env s) =
       trace s @ concat (replicate 8 [LedToggle Red, Sleep 250])
         @ (if path_exists env EXIT_FILE then [Aplay (APLAY_DEVICE env) EXIT_FILE] else [])
   \<and> trace (last (butlast (points (exit_program_steps env) s))) = trace (exit_program env s)
   \<and> toggles (exit_program env s) = toggles s + 8
   \<and> slept (exit_program env s) = slept s + 2000"
  by (simp add: exit_program_def exit_program_steps_def eval_nat_numeral time_sleep_def
      emit_def play_audio_file_def toggles_def slept_def)

subsection \<open>Model lifecycle\<close>

lemma points_append:
  "points (fs @ gs) s = butlast (points fs s) @ points gs (run_steps fs s)"
  by (induction fs arbitrary: s) (simp_all add: points_not_empty)

lemma list_all_butlast: "list_all P xs \<Longrightarrow> list_all P (butlast xs)"
  by (induction xs) auto

lemma points_unload_models:
  "at_most_one_model_set s \<Longrightarrow> list_all at_most_one_model_set (points unload_models_steps s)"
  by (simp add: unload_models_steps_def at_most_one_model_set_def gc_collect_def emit_def
      referenced_def)

lemma unload_models_state:
  "run_steps unload_models_steps s =
     s\<lparr>vosk_model := None, translator := None, sp_source := None, sp_target := None,
       live := [], trace := trace s @ [GcCollect]\<rparr>"
  by (simp add: unload_models_steps_def gc_collect_def emit_def referenced_def)

lemma points_construct:
  "live s = [] \<Longrightarrow>
   list_all at_most_one_model_set
     (points (if d = ''en_to_es'' then
        [new_vosk_model VOSK_EN,
         new_translator CT_EN_ES,
         new_sp_source SP_EN_ES_SRC,
         new_sp_target SP_EN_ES_TGT,
         \<lambda>s. s\<lparr>piper_voice := Some PIPER_ES\<rparr>,
         \<lambda>s. s\<lparr>piper_config := Some PIPER_CONFIG_ES\<rparr>]
      else if d = ''es_to_en'' then
        [new_vosk_model VOSK_ES,
         new_translator CT_ES_EN,
         new_sp_source SP_ES_EN_SRC,
         new_sp_target SP_ES_EN_TGT,
         \<lambda>s. s\<lparr>piper_voice := Some PIPER_EN\<rparr>,
         \<lambda>s. s\<lparr>piper_config := Some PIPER_CONFIG_EN\<rparr>]
      else []) s)"
  by (simp add: at_most_one_model_set_def new_vosk_model_def new_translator_def
      new_sp_source_def new_sp_target_def emit_def)

lemma points_load_models:
  "at_most_one_model_set s \<Longrightarrow> list_all at_most_one_model_set (points (load_models_steps d) s)"
  unfolding load_models_steps_def points_append
  by (simp add: points_unload_models list_all_butlast points_construct unload_models_state)

lemma load_models_state:
  "load_models d s =
     (if d = ''en_to_es'' then
        s\<lparr>vosk_model := Some (VoskModel VOSK_EN), translator := Some (Translator CT_EN_ES),
          sp_source := Some (SentencePiece SP_EN_ES_SRC),
          sp_target := Some (SentencePiece SP_EN_ES_TGT),
          piper_voice := Some PIPER_ES, piper_config := Some PIPER_CONFIG_ES,
          live := model_set d,
          trace := trace s @ GcCollect # map Construct (model_set d)\<rparr>
      else if d = ''es_to_en'' then
        s\<lparr>vosk_model := Some (VoskModel VOSK_ES), translator := Some (Translator CT_ES_EN),
          sp_source := Some (SentencePiece SP_ES_EN_SRC),
          sp_target := Some (SentencePiece SP_ES_EN_TGT),
          piper_voice := Some PIPER_EN, piper_config := Some PIPER_CONFIG_EN,
          live := model_set d,
          trace := trace s @ GcCollect # map Construct (model_set d)\<rparr>
      else
        s\<lparr>vosk_model := None, translator := None, sp_source := None, sp_target := None,
          live := [], trace := trace s @ [GcCollect]\<rparr>)"
  by (simp add: load_models_def load_models_steps_def unload_models_steps_def gc_collect_def
      referenced_def model_set_def new_vosk_model_def new_translator_def
      new_sp_source_def new_sp_target_def emit_def)

text \<open>
  C4.  Started where at most one ModelSet is resident, \<open>load_models d\<close> keeps at most
  one ModelSet resident at every point of its execution, for every argument \<open>d\<close>.  Its
  first five statements are those of \<open>unload_models\<close>, after which nothing is resident;
  only then are the objects of the new set constructed (the collection precedes every
  construction in the trace), and they are what is resident at the end.  Two calls in a
  row, for the same or for different directions, keep the bound at every point as well.
\<close>

theorem load_models_at_most_one_model_set:
  assumes "at_most_one_model_set s"
  shows "list_all at_most_one_model_set (points (load_models_steps d) s)
    \<and> take 5 (load_models_steps d) = unload_models_steps
    \<and> live (run_steps unload_models_steps s) = []
    \<and> live (load_models d s) = model_set d
    \<and> loads (load_models d s) = loads s @ GcCollect # map Construct (model_set d)
    \<and> list_all at_most_one_model_set
         (points (load_models_steps d @ load_models_steps d') s)"
proof -
  have one: "list_all at_most_one_model_set (points (load_models_steps d) s)"
    using assms by (rule points_load_models)
  have "at_most_one_model_set (last (points (load_models_steps d) s))"
    using one points_not_empty [of "load_models_steps d" s]
    by (simp add: list_all_iff)
  then have after: "at_most_one_model_set (run_steps (load_models_steps d) s)"
    by (simp add: run_steps_last_points)
  have twice: "list_all at_most_one_model_set
         (points (load_models_steps d @ load_models_steps d') s)"
    unfolding points_append using one after
    by (simp add: list_all_butlast points_load_models)
  have rel: "live (run_steps unload_models_steps s) = []"
    by (simp add: unload_models_state)
  have pre: "take 5 (load_models_steps d) = unload_models_steps"
    by (simp add: load_models_steps_def unload_models_steps_def)
  have fin: "live (load_models d s) = model_set d"
    by (simp add: load_models_state model_set_def)
  have lds: "loads (load_models d s) = loads s @ GcCollect # map Construct (model_set d)"
    by (simp add: load_models_state loads_def model_set_def)
  show ?thesis using one twice rel pre fin lds by simp
qed

lemma ready_state:
  "ready = initial_state\<lparr>current_direction := ''en_to_es'',
          vosk_model := Some (VoskModel VOSK_EN), translator := Some (Translator CT_EN_ES),
          sp_source := Some (SentencePiece SP_EN_ES_SRC),
          sp_target := Some (SentencePiece SP_EN_ES_TGT),
          piper_voice := Some PIPER_ES, piper_config := Some PIPER_CONFIG_ES,
          live := model_set ''en_to_es'',
          trace := GcCollect # map Construct (model_set ''en_to_es'')
             @ [Aplay ''plughw:3,0'' MODE_EN_ES_FILE]\<rparr>"
  by (simp add: ready_def startup_def switch_direction_def load_models_state
      get_translation_direction_def play_mode_announcement_def play_audio_file_def
      bench_env_def emit_def initial_state_def model_set_def)

theorem load_models_at_most_one_model_set_witness:
  "at_most_one_model_set ready
   \<and> list_all at_most_one_model_set (points (load_models_steps ''es_to_en'') ready)
   \<and> live (load_models ''es_to_en'' ready) =
       [VoskModel VOSK_ES, Translator CT_ES_EN, SentencePiece SP_ES_EN_SRC,
        SentencePiece SP_ES_EN_TGT]
   \<and> list_all at_most_one_model_set
         (points (load_models_steps ''es_to_en'' @ load_models_steps ''es_to_en'') ready)"
proof -
  have h: "at_most_one_model_set ready"
    by (simp add: ready_state at_most_one_model_set_def model_set_def)
  show ?thesis
    using h load_models_at_most_one_model_set [OF h, of "''es_to_en''" "''es_to_en''"]
    by (simp add: model_set_def)
qed

subsection \<open>Audio capture\<close>

lemma callback_not_recording: "\<not> recording s \<Longrightarrow> foldl callback s cs = s"
  by (induction cs) (simp_all add: callback_def callback_test_def)

lemma callback_recording:
  "recording s \<Longrightarrow> foldl callback s cs = s\<lparr>q := q s @ cs\<rparr>"
  by (induction cs arbitrary: s) (simp_all add: callback_def callback_test_def callback_put_def)

lemma deliver_not_recording: "\<not> recording s \<Longrightarrow> deliver cs s = s"
  by (simp add: deliver_def callback_not_recording)

lemma drain_eq: "drain cs fs = ([], fs @ cs)"
  by (induction cs arbitrary: fs) simp_all

lemma drain_queue_eq: "drain_queue s = s\<lparr>q := [], frames := frames s @ q s\<rparr>"
  by (simp add: drain_queue_def drain_eq)

lemma exit_program_eq:
  "exit_program env s = s\<lparr>exit_requested := True, trace := trace s @ exit_events env\<rparr>"
  by (simp add: exit_program_def exit_program_steps_def eval_nat_numeral time_sleep_def
      emit_def play_audio_file_def exit_events_def)

lemma exit_cb_eq:
  "exit_cb env b s =
     (if b then s\<lparr>exit_requested := True, trace := trace s @ exit_events env\<rparr> else s)"
  by (simp add: exit_cb_def exit_program_eq)

lemma deliver_eq:
  "deliver cs s = s\<lparr>q := q s @ (if stream s = Some Started \<and> recording s then cs else [])\<rparr>"
  by (simp add: deliver_def callback_recording callback_not_recording)

lemma stop_capture_eq:
  "stop_capture w s =
     (case stream s of
        None \<Rightarrow> (Some NameError, s\<lparr>recording := False\<rparr>)
      | Some st \<Rightarrow>
          (None, s\<lparr>recording := False, q := q s @ in_flight_put w s, stream := Some Closed,
                   trace := trace s @ [LedOff Red]\<rparr>))"
  by (simp add: stop_capture_def Let_def deliver_eq emit_def finish_in_flight_def
      in_flight_put_def callback_put_def split: option.splits)

lemma in_flight_put_after_clear: "in_flight_put (w\<lparr>after_clear := cs\<rparr>) s = in_flight_put w s"
  by (simp add: in_flight_put_def)

lemma in_flight_put_not_started: "stream s \<noteq> Some Started \<Longrightarrow> in_flight_put w s = []"
  by (simp add: in_flight_put_def split: option.splits)

lemma stop_capture_after_clear: "stop_capture w s = stop_capture (w\<lparr>after_clear := []\<rparr>) s"
  unfolding stop_capture_eq in_flight_put_after_clear by (rule refl)

text \<open>
  C3 (amended).  An invocation of the callback that starts once the accepting flag
  \<open>recording\<close> is cleared appends nothing, however many buffers the audio library
  still delivers: the state, and with it the FIFO \<open>q\<close>, stays as it is.  The
  \<open>finally\<close> block clears the flag before it stops the stream, so the buffers of the invocations that start while the
  stream is being stopped (\<open>after_clear\<close>) leave no trace.  What the block can still add
  to the queue is one buffer at most: that of an invocation which had tested the flag
  before the assignment and runs its \<open>put\<close> after it (\<open>in_flight_put\<close>, empty when no
  invocation is in flight or the stream is not running).  That \<open>put\<close> happens before
  \<open>stream.stop()\<close> returns.  When the block has ended the flag is cleared and the stream
  is closed, so any further delivery leaves the state as it is, the drain sees a fixed
  queue, and the outcome of the recording pass does not depend on the buffers delivered
  after the assignment.
\<close>

theorem append_after_clear_only_in_flight:
  "(\<not> recording s \<longrightarrow> foldl callback s cs = s \<and> deliver cs s = s)
   \<and> foldl callback (s\<lparr>recording := False\<rparr>) cs = s\<lparr>recording := False\<rparr>
   \<and> \<not> recording (snd (stop_capture w s))
   \<and> q (snd (stop_capture w s)) = q s @ in_flight_put w s
   \<and> length (in_flight_put w s) \<le> 1
   \<and> (in_flight w = None \<longrightarrow> q (snd (stop_capture w s)) = q s)
   \<and> stop_capture w s = stop_capture (w\<lparr>after_clear := []\<rparr>) s
   \<and> foldl callback (snd (stop_capture w s)) cs = snd (stop_capture w s)
   \<and> deliver cs (snd (stop_capture w s)) = snd (stop_capture w s)
   \<and> drain_queue (deliver cs (snd (stop_capture w s))) = drain_queue (snd (stop_capture w s))
   \<and> recording_phase env (c\<lparr>late_audio := w\<rparr>) s
       = recording_phase env (c\<lparr>late_audio := w\<lparr>after_clear := []\<rparr>\<rparr>) s"
proof -
  have a: "\<not> recording (snd (stop_capture w s))"
    by (simp add: stop_capture_eq split: option.splits)
  have b: "q (snd (stop_capture w s)) = q s @ in_flight_put w s"
    by (simp add: stop_capture_eq in_flight_put_def split: option.splits)
  have l: "length (in_flight_put w s) \<le> 1"
    by (simp add: in_flight_put_def split: option.splits)
  have n: "q (snd (stop_capture w s)) = q s" if "in_flight w = None"
    using that by (simp add: b in_flight_put_def)
  have c: "foldl callback (snd (stop_capture w s)) cs = snd (stop_capture w s)"
    using a by (rule callback_not_recording)
  have d: "deliver cs (snd (stop_capture w s)) = snd (stop_capture w s)"
    using a by (rule deliver_not_recording)
  have e: "recording_phase env (c\<lparr>late_audio := w\<rparr>) s
      = recording_phase env (c\<lparr>late_audio := w\<lparr>after_clear := []\<rparr>\<rparr>) s"
    by (simp add: recording_phase_def stop_capture_after_clear [of w] Let_def
        split: option.splits prod.splits)
  show ?thesis
    using a b l n c d e stop_capture_after_clear [of w s]
    by (simp add: callback_not_recording deliver_not_recording)
qed

theorem append_after_clear_only_in_flight_witness:
  "\<not> recording (ready\<lparr>q := [[1, 2]]\<rparr>)
   \<and> foldl callback (ready\<lparr>q := [[1, 2]]\<rparr>) [[3], [4]] = ready\<lparr>q := [[1, 2]]\<rparr>
   \<and> in_flight \<lparr>in_flight = None, after_clear = [[5]]\<rparr> = None
   \<and> q (snd (stop_capture \<lparr>in_flight = None, after_clear = [[5]]\<rparr>
         (ready\<lparr>q := [[1, 2]], recording := True, stream := Some Started\<rparr>))) = [[1, 2]]
   \<and> q (snd (stop_capture \<lparr>in_flight = Some [6], after_clear = [[7]]\<rparr>
         (ready\<lparr>q := [[1, 2]], recording := True, stream := Some Started\<rparr>)))
       = [[1, 2], [6]]"
  using append_after_clear_only_in_flight
      [of "ready\<lparr>q := [[1, 2]]\<rparr>" "[[3], [4]]"
          "\<lparr>in_flight = None, after_clear = [[5]]\<rparr>" bench_env one_recording]
    append_after_clear_only_in_flight
      [of "ready\<lparr>q := [[1, 2]], recording := True, stream := Some Started\<rparr>" "[[3], [4]]"
          "\<lparr>in_flight = None, after_clear = [[5]]\<rparr>" bench_env one_recording]
    append_after_clear_only_in_flight
      [of "ready\<lparr>q := [[1, 2]], recording := True, stream := Some Started\<rparr>" "[[3], [4]]"
          "\<lparr>in_flight = Some [6], after_clear = [[7]]\<rparr>" bench_env one_recording]
  by (simp add: ready_state initial_state_def in_flight_put_def callback_test_def callback_def
      deliver_def stop_capture_eq)

text \<open>
  The claim as stated fails when the audio thread is between the two steps of the
  callback at the moment the flag is cleared: the recording state below has \<open>[1, 2]\<close>
  in its queue, the invocation in flight holds the buffer \<open>[6]\<close>, and after
  \<open>recording = False\<close> its \<open>put\<close> appends that buffer to the queue.  The buffer
  \<open>[7]\<close>, of an invocation that starts after the assignment, is not appended.
\<close>

theorem put_after_flag_cleared:
  "callback_test (ready\<lparr>q := [[1, 2]], recording := True, stream := Some Started\<rparr>)
   \<and> \<not> recording (ready\<lparr>q := [[1, 2]], recording := True, stream := Some Started,
                          recording := False\<rparr>)
   \<and> q (callback_put [6] (ready\<lparr>q := [[1, 2]], recording := True, stream := Some Started,
                                  recording := False\<rparr>)) = [[1, 2], [6]]
   \<and> q (snd (stop_capture \<lparr>in_flight = Some [6], after_clear = [[7]]\<rparr>
         (ready\<lparr>q := [[1, 2]], recording := True, stream := Some Started\<rparr>)))
       = [[1, 2], [6]]
   \<and> q (ready\<lparr>q := [[1, 2]], recording := True, stream := Some Started\<rparr>) = [[1, 2]]"
  by (simp add: stop_capture_def Let_def finish_in_flight_def callback_test_def
      callback_put_def deliver_def callback_def emit_def)

lemma wait_release_holding:
  "list_all (holding ld) hs \<Longrightarrow> \<not> exit_requested s \<Longrightarrow>
   wait_for_button_release_or_switch_change env ld (hs @ rest) s =
   wait_for_button_release_or_switch_change env ld rest
     (s\<lparr>q := q s @ (if stream s = Some Started \<and> recording s
                      then concat (map delivered hs) else []),
        trace := trace s @ replicate (length hs) (Sleep 10)\<rparr>)"
proof (induction hs arbitrary: s)
  case Nil
  then show ?case by simp
next
  case (Cons x hs)
  then show ?case
    by (simp add: holding_def exit_cb_eq deliver_eq time_sleep_def emit_def Let_def
        replicate_app_Cons_same)
qed

lemma wait_release_releasing:
  "releasing r \<Longrightarrow> \<not> exit_requested s \<Longrightarrow>
   wait_for_button_release_or_switch_change env ld (r # rest) s =
     Some (None, deliver (delivered r) s)"
  by (simp add: releasing_def exit_cb_eq deliver_eq Let_def)

lemma recording_phase_released:
  assumes "list_all (holding (current_direction s)) hs" and "releasing r"
    and "\<not> exit_requested s" and "rec_polls c = hs @ r # rest" and "open_result c = Opens"
  shows "recording_phase env c s =
     process_audio env (await_polls c)
       (s\<lparr>q := concat (map delivered (hs @ [r]))
               @ (case in_flight (late_audio c) of None \<Rightarrow> [] | Some b \<Rightarrow> [b]),
          frames := [], recording := False, stream := Some Closed,
          trace := trace s @ LedOn Red # replicate (length hs) (Sleep 10) @ [LedOff Red]\<rparr>)"
proof -
  let ?s3 = "emit (LedOn Red)
     (open_stream (open_result c) (s\<lparr>q := [], frames := [], recording := True\<rparr>))"
  let ?s4 = "s\<lparr>q := concat (map delivered (hs @ [r])), frames := [], recording := True,
          stream := Some Started,
          trace := trace s @ LedOn Red # replicate (length hs) (Sleep 10)\<rparr>"
  have h: "list_all (holding (current_direction ?s3)) hs"
    using assms(1) by (simp add: emit_def assms(5))
  have e: "\<not> exit_requested ?s3"
    using assms(3) by (simp add: emit_def assms(5))
  have "wait_for_button_release_or_switch_change env (current_direction ?s3) (rec_polls c) ?s3
      = Some (None, ?s4)"
    unfolding assms(4) wait_release_holding [OF h e]
    using assms(2,3)
    by (subst wait_release_releasing) (simp_all add: emit_def assms(5) deliver_eq)
  then show ?thesis
    unfolding recording_phase_def Let_def
    using assms(3)
    apply (simp add: stop_capture_eq in_flight_put_def callback_test_def)
    apply (rule arg_cong [where f = "process_audio env (await_polls c)"])
    apply (rule state.equality; simp add: callback_test_def split: option.splits)
    done
qed

text \<open>
  C6.  Take a recording that runs its course: the stream opens, the button is held over
  the polls \<open>hs\<close> and released at the poll \<open>r\<close>, and each poll brings the buffers
  that arrived before it; \<open>arrivals\<close> are those buffers in the order the callback
  received them, the buffer of an invocation in flight at the release being the last.
  The pass then drains the queue into \<open>frames\<close>, which become exactly \<open>arrivals\<close>,
  and the sample buffer it goes on with is their concatenation in that order: when the
  buffer has no sample the pass announces "no audio", and otherwise the pass is what
  follows the call \<open>transcribe(audio, 16000)\<close> on exactly that buffer, which is the
  buffer the recognizer receives.  The number of samples of the buffer is the sum of the
  lengths of the arrived buffers.
\<close>

theorem recorded_buffer_in_arrival_order:
  assumes "list_all (holding (current_direction s)) hs" and "releasing r"
    and "\<not> exit_requested s" and "rec_polls c = hs @ r # rest" and "open_result c = Opens"
    and "arrivals = concat (map delivered (hs @ [r]))
           @ (case in_flight (late_audio c) of None \<Rightarrow> [] | Some b \<Rightarrow> [b])"
    and "drained = s\<lparr>q := [], frames := arrivals, recording := False, stream := Some Closed,
           trace := trace s @ LedOn Red # replicate (length hs) (Sleep 10) @ [LedOff Red]\<rparr>"
  shows "recording_phase env c s =
       (if length (concat arrivals) = 0
        then Some (Continue (play_no_audio env (current_direction s) drained))
        else process_text env (await_polls c)
               (transcribe env (concat arrivals) 16000 (emit (LedOn Red) drained)))
    \<and> frames drained = arrivals
    \<and> np_concatenate (frames drained) = concat arrivals
    \<and> length (concat arrivals) = sum_list (map length arrivals)
    \<and> (vosk_model s = Some m \<longrightarrow>
         trace (snd (transcribe env (concat arrivals) 16000 (emit (LedOn Red) drained)))
           = trace drained @ [LedOn Red, Recognize m 16000 (concat arrivals)])"
proof -
  let ?s5 = "s\<lparr>q := arrivals, frames := [], recording := False, stream := Some Closed,
      trace := trace s @ LedOn Red # replicate (length hs) (Sleep 10) @ [LedOff Red]\<rparr>"
  have r: "recording_phase env c s = process_audio env (await_polls c) ?s5"
    unfolding recording_phase_released [OF assms(1-5)] assms(6) by (rule refl)
  have d: "drain_queue ?s5 = drained"
    unfolding drain_queue_eq assms(7) by (rule state.equality; simp)
  have f: "frames drained = arrivals" and cd: "current_direction drained = current_direction s"
    by (simp_all add: assms(7))
  have n: "np_concatenate arrivals = concat arrivals"
    by (simp add: np_concatenate_def)
  have a: "recording_phase env c s =
       (if length (concat arrivals) = 0
        then Some (Continue (play_no_audio env (current_direction s) drained))
        else process_text env (await_polls c)
               (transcribe env (concat arrivals) 16000 (emit (LedOn Red) drained)))"
    unfolding r process_audio_def Let_def d f n cd by (rule refl)
  have l: "length (concat arrivals) = sum_list (map length arrivals)"
    by (simp add: length_concat)
  have t: "trace (snd (transcribe env (concat arrivals) 16000 (emit (LedOn Red) drained)))
           = trace drained @ [LedOn Red, Recognize m 16000 (concat arrivals)]"
    if "vosk_model s = Some m"
    using that by (simp add: transcribe_def emit_def Let_def assms(7) split: option.splits)
  show ?thesis
    using a f n l t by simp
qed

theorem recorded_buffer_in_arrival_order_witness:
  "list_all (holding (current_direction ready)) [held [[1, 2]], held [[3]]]
   \<and> releasing (released [[4, 5]])
   \<and> \<not> exit_requested ready
   \<and> rec_polls racing_recording = [held [[1, 2]], held [[3]]] @ released [[4, 5]] # []
   \<and> open_result racing_recording = Opens
   \<and> in_flight (late_audio racing_recording) = Some [6]
   \<and> vosk_model ready = Some (VoskModel VOSK_EN)
   \<and> recording_phase bench_env racing_recording ready
       = process_text bench_env (await_polls racing_recording)
           (transcribe bench_env [1, 2, 3, 4, 5, 6] 16000
              (emit (LedOn Red)
                 (ready\<lparr>q := [], frames := [[1, 2], [3], [4, 5], [6]], recording := False,
                    stream := Some Closed,
                    trace := trace ready @ [LedOn Red, Sleep 10, Sleep 10, LedOff Red]\<rparr>)))
   \<and> trace (snd (transcribe bench_env [1, 2, 3, 4, 5, 6] 16000
              (emit (LedOn Red)
                 (ready\<lparr>q := [], frames := [[1, 2], [3], [4, 5], [6]], recording := False,
                    stream := Some Closed,
                    trace := trace ready @ [LedOn Red, Sleep 10, Sleep 10, LedOff Red]\<rparr>))))
       = trace ready @ [LedOn Red, Sleep 10, Sleep 10, LedOff Red, LedOn Red,
                        Recognize (VoskModel VOSK_EN) 16000 [1, 2, 3, 4, 5, 6]]
   \<and> length [1, 2, 3, 4, 5, 6 :: 16 word]
       = sum_list (map length [[1, 2], [3], [4, 5], [6 :: 16 word]])"
proof -
  have h: "list_all (holding (current_direction ready)) [held [[1, 2]], held [[3]]]"
    by (simp add: ready_state initial_state_def holding_def held_def
        get_translation_direction_def)
  have r: "releasing (released [[4, 5]])"
    by (simp add: releasing_def released_def)
  have e: "\<not> exit_requested ready"
    by (simp add: ready_state initial_state_def)
  have p: "rec_polls racing_recording = [held [[1, 2]], held [[3]]] @ released [[4, 5]] # []"
    by (simp add: racing_recording_def one_recording_def)
  have o: "open_result racing_recording = Opens"
    by (simp add: racing_recording_def one_recording_def)
  have i: "in_flight (late_audio racing_recording) = Some [6]"
    by (simp add: racing_recording_def)
  have v: "vosk_model ready = Some (VoskModel VOSK_EN)"
    by (simp add: ready_state initial_state_def)
  have a: "[[1, 2], [3], [4, 5], [6]] = concat (map delivered ([held [[1, 2]], held [[3]]]
      @ [released [[4, 5]]]))
      @ (case in_flight (late_audio racing_recording) of None \<Rightarrow> [] | Some b \<Rightarrow> [b])"
    by (simp add: i held_def released_def)
  have d: "ready\<lparr>q := [], frames := [[1, 2], [3], [4, 5], [6]], recording := False,
      stream := Some Closed,
      trace := trace ready @ [LedOn Red, Sleep 10, Sleep 10, LedOff Red]\<rparr>
    = ready\<lparr>q := [], frames := [[1, 2], [3], [4, 5], [6]], recording := False,
      stream := Some Closed,
      trace := trace ready @ LedOn Red
        # replicate (length [held [[1, 2]], held [[3]]]) (Sleep 10) @ [LedOff Red]\<rparr>"
    by (simp add: eval_nat_numeral)
  show ?thesis
    using h r e p o i v
      recorded_buffer_in_arrival_order [OF h r e p o a d, of bench_env "VoskModel VOSK_EN"]
    by simp
qed

subsection \<open>Processing a recording\<close>

lemma play_no_audio_eq:
  "play_no_audio env d s =
     s\<lparr>trace := trace s @ (if path_exists env (no_audio_file d)
                             then [Aplay (APLAY_DEVICE env) (no_audio_file d)] else [])\<rparr>"
  by (simp add: play_no_audio_def play_audio_file_def emit_def no_audio_file_def)

lemma dropWhile_all: "(\<forall>x\<in>set (dropWhile P xs). P x) \<longleftrightarrow> (\<forall>x\<in>set xs. P x)"
  by (induction xs) auto

lemma py_strip_empty: "py_strip t = [] \<longleftrightarrow> list_all py_isspace t"
  by (simp add: py_strip_def dropWhile_eq_Nil_conv list_all_iff dropWhile_all)

lemma transcribe_frame:
  "transcribe env a r s = (res, s') \<Longrightarrow>
   s' = s\<lparr>trace := trace s'\<rparr> \<and> translator_calls s' = translator_calls s
   \<and> played s' = played s \<and> loads s' = loads s"
  by (auto simp add: transcribe_def emit_def Let_def translator_calls_def played_def loads_def
      split: option.splits)

text \<open>
  C7.  When the drained sample buffer is empty, the pass plays the "no audio" file chosen
  by \<open>current_direction\<close> as it is at that moment and continues with the next pass of
  the main loop (IDLE); neither the recognizer nor the translator is called.  When the
  buffer is not empty and the recognizer returns a string that is empty or consists of
  white space only, the pass plays the file chosen by the same variable (which the
  recognizer call has not changed) and continues with the next pass; the translator is
  not called.  The file is the English one exactly for \<open>en_to_es\<close> and the Spanish one
  otherwise, aplay runs when the file exists, and after a switch of direction
  \<open>current_direction\<close> is the new direction.
\<close>

theorem no_audio_announcement:
  "(np_concatenate (frames s @ q s) = [] \<longrightarrow>
      process_audio env polls s
        = Some (Continue (play_no_audio env (current_direction s) (drain_queue s)))
      \<and> recognizer_calls (play_no_audio env (current_direction s) (drain_queue s))
          = recognizer_calls s
      \<and> translator_calls (play_no_audio env (current_direction s) (drain_queue s))
          = translator_calls s)
   \<and> (np_concatenate (frames s @ q s) \<noteq> []
      \<and> transcribe env (np_concatenate (frames s @ q s)) 16000 (emit (LedOn Red) (drain_queue s))
          = (Inr (JString t), s2)
      \<and> list_all py_isspace t \<longrightarrow>
      process_audio env polls s
        = Some (Continue (play_no_audio env (current_direction s) (emit (LedOff Red) s2)))
      \<and> current_direction s2 = current_direction s
      \<and> translator_calls (play_no_audio env (current_direction s) (emit (LedOff Red) s2))
          = translator_calls s)
   \<and> played (play_no_audio env d s') = played s' @
        (if path_exists env (if d = ''en_to_es'' then NO_AUDIO_EN_FILE else NO_AUDIO_ES_FILE)
         then [Aplay (APLAY_DEVICE env)
                 (if d = ''en_to_es'' then NO_AUDIO_EN_FILE else NO_AUDIO_ES_FILE)]
         else [])
   \<and> current_direction (switch_direction env d s') = d"
proof -
  have a: "np_concatenate (frames s @ q s) = [] \<Longrightarrow>
      process_audio env polls s
        = Some (Continue (play_no_audio env (current_direction s) (drain_queue s)))"
    by (simp add: process_audio_def process_text_def Let_def drain_queue_eq)
  have a2: "recognizer_calls (play_no_audio env (current_direction s) (drain_queue s))
          = recognizer_calls s"
    by (simp add: play_no_audio_eq drain_queue_eq recognizer_calls_def)
  have a3: "translator_calls (play_no_audio env (current_direction s) (drain_queue s))
          = translator_calls s"
    by (simp add: play_no_audio_eq drain_queue_eq translator_calls_def)
  have b: "process_audio env polls s
        = Some (Continue (play_no_audio env (current_direction s) (emit (LedOff Red) s2)))
      \<and> current_direction s2 = current_direction s
      \<and> translator_calls (play_no_audio env (current_direction s) (emit (LedOff Red) s2))
          = translator_calls s"
    if ne: "np_concatenate (frames s @ q s) \<noteq> []"
      and tr: "transcribe env (np_concatenate (frames s @ q s)) 16000
                 (emit (LedOn Red) (drain_queue s)) = (Inr (JString t), s2)"
      and ws: "list_all py_isspace t"
  proof -
    from transcribe_frame [OF tr]
    have f: "s2 = (emit (LedOn Red) (drain_queue s))\<lparr>trace := trace s2\<rparr>"
      and tc: "translator_calls s2 = translator_calls (emit (LedOn Red) (drain_queue s))"
      by simp_all
    have cd: "current_direction s2 = current_direction s"
      by (subst f) (simp add: emit_def drain_queue_eq)
    have "process_audio env polls s
        = Some (Continue (play_no_audio env (current_direction s2) (emit (LedOff Red) s2)))"
      using ne tr ws
      by (simp add: process_audio_def process_text_def Let_def drain_queue_eq py_strip_empty emit_def)
    then show ?thesis
      using cd tc
      by (simp add: play_no_audio_eq translator_calls_def emit_def drain_queue_eq)
  qed
  have c: "played (play_no_audio env d s') = played s' @
        (if path_exists env (if d = ''en_to_es'' then NO_AUDIO_EN_FILE else NO_AUDIO_ES_FILE)
         then [Aplay (APLAY_DEVICE env)
                 (if d = ''en_to_es'' then NO_AUDIO_EN_FILE else NO_AUDIO_ES_FILE)]
         else [])"
    by (simp add: play_no_audio_eq played_def no_audio_file_def)
  have d: "current_direction (switch_direction env d s') = d"
    by (simp add: switch_direction_def play_mode_announcement_def play_audio_file_def emit_def
        load_models_state)
  show ?thesis
    using a a2 a3 b c d by blast
qed

theorem no_audio_announcement_witness:
  "np_concatenate (frames ready @ q ready) = []
   \<and> process_audio bench_env [] ready
       = Some (Continue (play_no_audio bench_env ''en_to_es'' (drain_queue ready)))
   \<and> played (play_no_audio bench_env ''en_to_es'' (drain_queue ready))
       = played ready @ [Aplay ''plughw:3,0'' NO_AUDIO_EN_FILE]
   \<and> np_concatenate (frames (ready\<lparr>q := [[1]]\<rparr>) @ q (ready\<lparr>q := [[1]]\<rparr>)) \<noteq> []
   \<and> list_all py_isspace [32, 9]
   \<and> process_audio blank_env [] (ready\<lparr>q := [[1]]\<rparr>)
       = Some (Continue (play_no_audio blank_env ''en_to_es''
           (emit (LedOff Red) (emit (Recognize (VoskModel VOSK_EN) 16000 [1])
              (emit (LedOn Red) (drain_queue (ready\<lparr>q := [[1]]\<rparr>)))))))"
proof -
  have a: "np_concatenate (frames ready @ q ready) = []"
    by (simp add: ready_state initial_state_def np_concatenate_def)
  have b: "np_concatenate (frames (ready\<lparr>q := [[1]]\<rparr>) @ q (ready\<lparr>q := [[1]]\<rparr>)) \<noteq> []"
    by (simp add: ready_state initial_state_def np_concatenate_def)
  have c: "transcribe blank_env (np_concatenate (frames (ready\<lparr>q := [[1]]\<rparr>) @ q (ready\<lparr>q := [[1]]\<rparr>)))
      16000 (emit (LedOn Red) (drain_queue (ready\<lparr>q := [[1]]\<rparr>)))
     = (Inr (JString [32, 9]), emit (Recognize (VoskModel VOSK_EN) 16000 [1])
              (emit (LedOn Red) (drain_queue (ready\<lparr>q := [[1]]\<rparr>))))"
    by (simp add: ready_state initial_state_def np_concatenate_def transcribe_def blank_env_def
        bench_env_def emit_def drain_queue_eq TEXT_KEY_def)
  have d: "list_all py_isspace [32, 9]"
    by (simp add: py_isspace_def)
  have cd: "current_direction ready = ''en_to_es''"
    by (simp add: ready_state initial_state_def)
  have e: "path_exists bench_env NO_AUDIO_EN_FILE" "APLAY_DEVICE bench_env = ''plughw:3,0''"
    by (simp_all add: bench_env_def)
  show ?thesis
    using a b c d cd e
      no_audio_announcement [of ready bench_env "[]" "[32, 9]" ready "''en_to_es''" "drain_queue ready"]
      no_audio_announcement [of "ready\<lparr>q := [[1]]\<rparr>" blank_env "[]" "[32, 9]"
        "emit (Recognize (VoskModel VOSK_EN) 16000 [1])
              (emit (LedOn Red) (drain_queue (ready\<lparr>q := [[1]]\<rparr>)))" "''en_to_es''" ready]
    by (simp add: drain_queue_eq played_def)
qed

text \<open>
  C10 (amended).  When the recognizer's final result parses to a JSON object that has
  no key \<open>"text"\<close>, \<open>transcribe\<close> returns the empty string and raises nothing.
  The pass then takes the branch an empty transcription takes: it plays the "no audio"
  file of the current direction and continues with the next pass, exactly as it does
  with a recognizer that answers \<open>{"text": ""}\<close>.  (The claim as stated also covers
  results that are not JSON objects; for those see the evaluation below.)
\<close>

theorem transcribe_object_without_text:
  assumes "vosk_model s = Some m"
    and "final_result env m audio = Some (JObject items)"
    and "map_of items TEXT_KEY = None"
  shows "transcribe env audio rate s = (Inr (JString []), emit (Recognize m rate audio) s)
    \<and> (np_concatenate (frames s @ q s) = audio \<and> audio \<noteq> [] \<longrightarrow>
         process_audio env polls s
           = Some (Continue (play_no_audio env (current_direction s)
               (emit (LedOff Red) (emit (Recognize m 16000 audio)
                  (emit (LedOn Red) (drain_queue s))))))
         \<and> process_audio env polls s
           = process_audio (env\<lparr>final_result := \<lambda>m a. Some (JObject [(TEXT_KEY, JString [])])\<rparr>)
               polls s)"
proof -
  have t: "transcribe env audio r s' = (Inr (JString []), emit (Recognize m r audio) s')"
    if "vosk_model s' = Some m" for r s'
    using that assms(2,3) by (simp add: transcribe_def)
  have t': "transcribe (env\<lparr>final_result := \<lambda>m a. Some (JObject [(TEXT_KEY, JString [])])\<rparr>)
       audio r s' = (Inr (JString []), emit (Recognize m r audio) s')"
    if "vosk_model s' = Some m" for r s'
    using that by (simp add: transcribe_def)
  have v: "vosk_model (emit (LedOn Red) (drain_queue s)) = Some m"
    using assms(1) by (simp add: emit_def drain_queue_eq)
  have p: "process_audio env polls s
           = Some (Continue (play_no_audio env (current_direction s)
               (emit (LedOff Red) (emit (Recognize m 16000 audio)
                  (emit (LedOn Red) (drain_queue s))))))"
    if "np_concatenate (frames s @ q s) = audio" "audio \<noteq> []"
    using that t [OF v]
    by (simp add: process_audio_def process_text_def Let_def drain_queue_eq py_strip_def emit_def)
  have p': "process_audio (env\<lparr>final_result := \<lambda>m a. Some (JObject [(TEXT_KEY, JString [])])\<rparr>)
               polls s
           = Some (Continue (play_no_audio env (current_direction s)
               (emit (LedOff Red) (emit (Recognize m 16000 audio)
                  (emit (LedOn Red) (drain_queue s))))))"
    if "np_concatenate (frames s @ q s) = audio" "audio \<noteq> []"
    using that t' [OF v]
    by (simp add: process_audio_def process_text_def Let_def drain_queue_eq py_strip_def emit_def
        play_no_audio_def play_audio_file_def)
  show ?thesis
    using t [OF assms(1)] p p' by simp
qed

theorem transcribe_object_without_text_witness:
  "vosk_model ready = Some (VoskModel VOSK_EN)
   \<and> final_result (bench_env\<lparr>final_result := \<lambda>m a. Some (JObject [])\<rparr>) (VoskModel VOSK_EN) [1]
       = Some (JObject [])
   \<and> map_of ([] :: (pystr \<times> json) list) TEXT_KEY = None
   \<and> transcribe (bench_env\<lparr>final_result := \<lambda>m a. Some (JObject [])\<rparr>) [1] 16000 ready
       = (Inr (JString []), emit (Recognize (VoskModel VOSK_EN) 16000 [1]) ready)"
proof -
  have a: "vosk_model ready = Some (VoskModel VOSK_EN)"
    by (simp add: ready_state initial_state_def)
  have b: "final_result (bench_env\<lparr>final_result := \<lambda>m a. Some (JObject [])\<rparr>)
      (VoskModel VOSK_EN) [1] = Some (JObject [])"
    by simp
  have c: "map_of ([] :: (pystr \<times> json) list) TEXT_KEY = None"
    by simp
  show ?thesis
    using a b c transcribe_object_without_text [OF a b c, of 16000 "[]"]
    by simp
qed

text \<open>
  A final result that is the JSON array \<open>[]\<close> has no field \<open>"text"\<close> either, but
  \<open>result.get\<close> raises AttributeError on it and the pass ends with that exception;
  a final result that is not JSON makes \<open>json.loads\<close> raise.
\<close>

theorem transcribe_raises_without_object:
  "final_result array_env (VoskModel VOSK_EN) [1] = Some (JArray [])
   \<and> fst (transcribe array_env [1] 16000 ready) = Inl AttributeError
   \<and> map_option raised (process_audio array_env [] (ready\<lparr>q := [[1]]\<rparr>))
       = Some (Some AttributeError)
   \<and> final_result garbled_env (VoskModel VOSK_EN) [1] = None
   \<and> fst (transcribe garbled_env [1] 16000 ready) = Inl JSONDecodeError
   \<and> map_option raised (process_audio garbled_env [] (ready\<lparr>q := [[1]]\<rparr>))
       = Some (Some JSONDecodeError)"
  by (simp add: array_env_def garbled_env_def bench_env_def transcribe_def ready_state
      initial_state_def process_audio_def process_text_def drain_queue_eq np_concatenate_def emit_def Let_def)

subsection \<open>The exit flag and the polling loops\<close>


lemma exit_events_no_switch:
  "filter is_load (exit_events env) = []" "filter is_mode_announcement (exit_events env) = []"
  by (simp_all add: exit_events_def eval_nat_numeral EXIT_FILE_def MODE_EN_ES_FILE_def
      MODE_ES_EN_FILE_def)

lemma no_switch_refl: "no_switch s s"
  by (simp add: no_switch_def)

lemma no_switch_trans: "no_switch s s' \<Longrightarrow> no_switch s' s'' \<Longrightarrow> no_switch s s''"
  by (simp add: no_switch_def)

lemma no_switch_exit_cb: "no_switch s (exit_cb env b s)"
  by (simp add: no_switch_def exit_cb_eq loads_def announced_def
      exit_events_no_switch)

lemma no_switch_emit:
  "\<not> is_load e \<Longrightarrow> \<not> is_mode_announcement e \<Longrightarrow> no_switch s (emit e s)"
  by (simp add: no_switch_def emit_def loads_def announced_def)

lemma no_switch_deliver: "no_switch s (deliver cs s)"
  by (simp add: no_switch_def deliver_eq loads_def announced_def)

lemma exit_cb_sel:
  "exit_requested (exit_cb env b s) = (exit_requested s \<or> b)"
  "stream (exit_cb env b s) = stream s"
  "recording (exit_cb env b s) = recording s"
  "current_direction (exit_cb env b s) = current_direction s"
  "q (exit_cb env b s) = q s"
  "frames (exit_cb env b s) = frames s"
  "vosk_model (exit_cb env b s) = vosk_model s"
  by (simp_all add: exit_cb_eq)

lemma deliver_sel:
  "exit_requested (deliver cs s) = exit_requested s"
  "stream (deliver cs s) = stream s"
  "recording (deliver cs s) = recording s"
  "current_direction (deliver cs s) = current_direction s"
  "frames (deliver cs s) = frames s"
  "trace (deliver cs s) = trace s"
  "vosk_model (deliver cs s) = vosk_model s"
  by (simp_all add: deliver_eq)

lemma exit_requested_exit_cb: "exit_requested s \<Longrightarrow> exit_requested (exit_cb env b s)"
  by (simp add: exit_cb_eq)

lemma wait_idle_exit:
  "exit_requested s \<Longrightarrow>
   \<exists>s'. wait_for_button_or_switch_change env ld polls s = Some (Some ''exit'', s')
        \<and> exit_requested s' \<and> no_switch s s'"
  by (cases polls) (simp_all add: no_switch_refl no_switch_exit_cb exit_requested_exit_cb Let_def)

lemma wait_release_exit:
  assumes e: "exit_requested s"
  shows "\<exists>s'. wait_for_button_release_or_switch_change env ld polls s = Some (Some ''exit'', s')
        \<and> exit_requested s' \<and> no_switch s s' \<and> stream s' = stream s"
proof (cases polls)
  case Nil
  then show ?thesis using e by (simp add: no_switch_refl)
next
  case (Cons x xs)
  have "no_switch s (exit_cb env (exit_late x) (deliver (delivered x) (exit_cb env (exit_early x) s)))"
    by (blast intro: no_switch_trans no_switch_exit_cb no_switch_deliver)
  then show ?thesis
    using e Cons by (simp add: Let_def exit_cb_sel deliver_sel)
qed

lemma await_exit:
  "exit_requested s \<Longrightarrow>
   \<exists>s'. await_playback_decision env polls s = Some (False, s')
        \<and> exit_requested s' \<and> no_switch s s'"
  by (cases polls) (simp_all add: no_switch_refl no_switch_exit_cb exit_requested_exit_cb Let_def)

lemma no_switch_time_sleep: "no_switch s (time_sleep n s)"
  by (simp add: time_sleep_def no_switch_emit)

lemma no_switch_step:
  "no_switch s s' \<Longrightarrow> no_switch s (exit_cb env b s')"
  "no_switch s s' \<Longrightarrow> no_switch s (deliver cs s')"
  "no_switch s s' \<Longrightarrow> no_switch s (time_sleep n s')"
  by (erule no_switch_trans, rule no_switch_exit_cb no_switch_deliver no_switch_time_sleep)+

lemma emit_sel:
  "exit_requested (emit e s) = exit_requested s"
  "stream (emit e s) = stream s"
  "recording (emit e s) = recording s"
  "current_direction (emit e s) = current_direction s"
  "q (emit e s) = q s"
  "frames (emit e s) = frames s"
  "vosk_model (emit e s) = vosk_model s"
  "trace (emit e s) = trace s @ [e]"
  by (simp_all add: emit_def)

lemma exit_requested_load_models:
  "exit_requested (load_models d s) = exit_requested s"
  by (simp add: load_models_state)

lemma exit_requested_switch_direction:
  "exit_requested (switch_direction env d s) = exit_requested s"
  by (simp add: switch_direction_def play_mode_announcement_def play_audio_file_def emit_def
      exit_requested_load_models)

lemma wait_idle_first:
  assumes "exit_requested s \<or> exit_early x \<or> exit_late x"
  shows "\<exists>r s'. wait_for_button_or_switch_change env ld (x # xs) s = Some (r, s')
        \<and> exit_requested s' \<and> no_switch s s'"
proof (cases "exit_requested (exit_cb env (exit_early x) s)")
  case True
  then show ?thesis by (simp add: Let_def no_switch_exit_cb)
next
  case False
  let ?s1 = "exit_cb env (exit_early x) s"
  let ?s2 = "exit_cb env (exit_late x) ?s1"
  let ?s3 = "time_sleep 10 ?s2"
  from False assms have late: "exit_late x"
    by (simp add: exit_cb_sel)
  have n2: "no_switch s ?s2"
    by (intro no_switch_step no_switch_refl)
  have n3: "no_switch s ?s3"
    by (intro no_switch_step no_switch_refl)
  have e2: "exit_requested ?s2" and e3: "exit_requested ?s3"
    using late by (simp_all add: exit_cb_sel time_sleep_def emit_sel)
  from wait_idle_exit [OF e3, of env ld xs] obtain s' where
    w: "wait_for_button_or_switch_change env ld xs ?s3 = Some (Some ''exit'', s')"
    and e': "exit_requested s'" and n': "no_switch ?s3 s'"
    by blast
  have n'': "no_switch s s'"
    using n3 n' by (rule no_switch_trans)
  show ?thesis
    using False w e' n'' n2 e2 by (simp add: Let_def)
qed

lemma wait_release_first:
  assumes "exit_requested s \<or> exit_early x \<or> exit_late x"
  shows "\<exists>r s'. wait_for_button_release_or_switch_change env ld (x # xs) s = Some (r, s')
        \<and> exit_requested s' \<and> no_switch s s' \<and> stream s' = stream s"
proof -
  let ?s1 = "deliver (delivered x) (exit_cb env (exit_early x) s)"
  let ?s2 = "exit_cb env (exit_late x) ?s1"
  let ?s3 = "time_sleep 10 ?s2"
  have n2: "no_switch s ?s2"
    by (intro no_switch_step no_switch_refl)
  have n3: "no_switch s ?s3"
    by (intro no_switch_step no_switch_refl)
  have st2: "stream ?s2 = stream s" and st3: "stream ?s3 = stream s"
    by (simp_all add: exit_cb_sel deliver_sel time_sleep_def emit_sel)
  show ?thesis
  proof (cases "exit_requested ?s1")
    case True
    then have "exit_requested ?s2" by (simp add: exit_cb_sel)
    with True n2 st2 show ?thesis by (simp add: Let_def)
  next
    case False
    with assms have late: "exit_late x"
      by (simp add: exit_cb_sel deliver_sel)
    have e2: "exit_requested ?s2" and e3: "exit_requested ?s3"
      using late by (simp_all add: exit_cb_sel time_sleep_def emit_sel)
    from wait_release_exit [OF e3, of env ld xs] obtain s' where
      w: "wait_for_button_release_or_switch_change env ld xs ?s3 = Some (Some ''exit'', s')"
      and e': "exit_requested s'" and n': "no_switch ?s3 s'" and st': "stream s' = stream ?s3"
      by blast
    have n'': "no_switch s s'"
      using n3 n' by (rule no_switch_trans)
    show ?thesis
      using False w e' n'' n2 e2 st2 st3 st' by (simp add: Let_def)
  qed
qed

lemma await_first:
  assumes "exit_requested s \<or> exit_early x \<or> exit_late x"
  shows "\<exists>r s'. await_playback_decision env (x # xs) s = Some (r, s') \<and> exit_requested s'
       \<and> (exit_requested s \<or> exit_early x \<longrightarrow> no_switch s s')"
proof (cases "exit_requested (exit_cb env (exit_early x) s)")
  case True
  then show ?thesis by (auto simp add: Let_def no_switch_exit_cb)
next
  case False
  let ?s1 = "exit_cb env (exit_early x) s"
  let ?s2 = "exit_cb env (exit_late x) ?s1"
  let ?s3 = "time_sleep 10 ?s2"
  from False assms have late: "exit_late x" and ne: "\<not> (exit_requested s \<or> exit_early x)"
    by (simp_all add: exit_cb_sel)
  have e2: "exit_requested ?s2" and e3: "exit_requested ?s3"
    using late by (simp_all add: exit_cb_sel time_sleep_def emit_sel)
  have e4: "exit_requested (switch_direction env d (emit (LedOff Green) ?s2))" for d
    using e2 by (simp add: exit_requested_switch_direction emit_sel)
  from await_exit [OF e3, of env xs] obtain s' where
    w: "await_playback_decision env xs ?s3 = Some (False, s')"
    and e': "exit_requested s'"
    by blast
  show ?thesis
    using False w e' e2 e4 ne by (auto simp add: Let_def)
qed

lemma main_body_break:
  assumes "exit_requested s \<or> exit_early x \<or> exit_late x" and "idle_polls c = x # xs"
  shows "\<exists>s'. main_body env c s = Some (Break s') \<and> exit_requested s' \<and> no_switch s s'"
proof -
  let ?s1 = "emit (LedOff Green) (emit (LedOff Red) s)"
  have a: "exit_requested ?s1 \<or> exit_early x \<or> exit_late x"
    using assms(1) by (simp add: emit_sel)
  have n1: "no_switch s ?s1"
    by (simp add: no_switch_def emit_def loads_def announced_def)
  from wait_idle_first [OF a, of env "current_direction ?s1" xs] obtain r s' where
    w: "wait_for_button_or_switch_change env (current_direction ?s1) (idle_polls c) ?s1
          = Some (r, s')"
    and e: "exit_requested s'" and n: "no_switch ?s1 s'"
    unfolding assms(2) by blast
  have "main_body env c s = Some (Break s')"
    unfolding main_body_def Let_def w using e by simp
  then show ?thesis
    using e no_switch_trans [OF n1 n] by simp
qed

lemma main_body_exit:
  assumes "exit_requested s"
  shows "\<exists>s'. main_body env c s = Some (Break s') \<and> exit_requested s' \<and> no_switch s s'"
proof -
  let ?s1 = "emit (LedOff Green) (emit (LedOff Red) s)"
  have a: "exit_requested ?s1"
    using assms(1) by (simp add: emit_sel)
  have n1: "no_switch s ?s1"
    by (simp add: no_switch_def emit_def loads_def announced_def)
  from wait_idle_exit [OF a, of env "current_direction ?s1" "idle_polls c"] obtain s' where
    w: "wait_for_button_or_switch_change env (current_direction ?s1) (idle_polls c) ?s1
          = Some (Some ''exit'', s')"
    and e: "exit_requested s'" and n: "no_switch ?s1 s'"
    by blast
  have "main_body env c s = Some (Break s')"
    unfolding main_body_def Let_def w using e by simp
  then show ?thesis
    using e no_switch_trans [OF n1 n] by simp
qed

lemma stop_capture_sel:
  "exit_requested (snd (stop_capture late s)) = exit_requested s"
  "no_switch s (snd (stop_capture late s))"
  "fst (stop_capture late s) = (if stream s = None then Some NameError else None)"
  by (simp_all add: stop_capture_eq no_switch_def loads_def announced_def split: option.splits)

lemma recording_phase_stop_gen:
  assumes w: "wait_for_button_release_or_switch_change env
        (current_direction (emit (LedOn Red)
           (open_stream (open_result c) (s\<lparr>q := [], frames := [], recording := True\<rparr>))))
        (rec_polls c)
        (emit (LedOn Red)
           (open_stream (open_result c) (s\<lparr>q := [], frames := [], recording := True\<rparr>)))
      = Some (r, s4)"
    and e: "exit_requested s4"
    and n: "no_switch (emit (LedOn Red)
           (open_stream (open_result c) (s\<lparr>q := [], frames := [], recording := True\<rparr>))) s4"
    and st: "stream s4 = stream (open_stream (open_result c) s)"
  shows "\<exists>s'. recording_phase env c s =
           Some (if stream s = None \<and> open_result c = ConstructorRaises
                 then Raise NameError s' else Break s')
         \<and> exit_requested s' \<and> no_switch s s'"
proof -
  let ?s3 = "emit (LedOn Red)
           (open_stream (open_result c) (s\<lparr>q := [], frames := [], recording := True\<rparr>))"
  let ?s5 = "snd (stop_capture (late_audio c) s4)"
  have n3: "no_switch s ?s3"
    by (cases "open_result c") (simp_all add: no_switch_def emit_def loads_def announced_def)
  have n5: "no_switch s ?s5"
    using n3 n stop_capture_sel(2) [of s4 "late_audio c"] by (blast intro: no_switch_trans)
  have e5: "exit_requested ?s5"
    using e by (simp add: stop_capture_sel)
  have f: "fst (stop_capture (late_audio c) s4)
      = (if stream s = None \<and> open_result c = ConstructorRaises then Some NameError else None)"
    using st by (cases "open_result c") (simp_all add: stop_capture_sel)
  have "recording_phase env c s =
           Some (if stream s = None \<and> open_result c = ConstructorRaises
                 then Raise NameError ?s5 else Break ?s5)"
    unfolding recording_phase_def Let_def w using e5 f
    by (cases "stop_capture (late_audio c) s4") auto
  then show ?thesis
    using e5 n5 by blast
qed

lemma stream_after_open:
  "stream (emit e (open_stream r (s\<lparr>q := a, frames := b, recording := c\<rparr>)))
     = stream (open_stream r s)"
  "exit_requested (emit e (open_stream r (s\<lparr>q := a, frames := b, recording := c\<rparr>)))
     = exit_requested s"
  by (cases r; simp add: emit_def)+

lemma recording_phase_first:
  assumes "exit_requested s \<or> exit_early x \<or> exit_late x" and "rec_polls c = x # xs"
  shows "\<exists>s'. recording_phase env c s =
           Some (if stream s = None \<and> open_result c = ConstructorRaises
                 then Raise NameError s' else Break s')
         \<and> exit_requested s' \<and> no_switch s s'"
proof -
  let ?s3 = "emit (LedOn Red)
           (open_stream (open_result c) (s\<lparr>q := [], frames := [], recording := True\<rparr>))"
  have a: "exit_requested ?s3 \<or> exit_early x \<or> exit_late x"
    using assms(1) by (simp add: stream_after_open)
  from wait_release_first [OF a, of env "current_direction ?s3" xs] obtain r s4 where
    w: "wait_for_button_release_or_switch_change env (current_direction ?s3) (rec_polls c) ?s3
          = Some (r, s4)"
    and e: "exit_requested s4" and n: "no_switch ?s3 s4" and st: "stream s4 = stream ?s3"
    unfolding assms(2) by blast
  from st have st': "stream s4 = stream (open_stream (open_result c) s)"
    by (simp add: stream_after_open)
  show ?thesis
    using w e n st' by (rule recording_phase_stop_gen)
qed

lemma recording_phase_exit:
  assumes "exit_requested s"
  shows "\<exists>s'. recording_phase env c s =
           Some (if stream s = None \<and> open_result c = ConstructorRaises
                 then Raise NameError s' else Break s')
         \<and> exit_requested s' \<and> no_switch s s'"
proof -
  let ?s3 = "emit (LedOn Red)
           (open_stream (open_result c) (s\<lparr>q := [], frames := [], recording := True\<rparr>))"
  have a: "exit_requested ?s3"
    using assms(1) by (simp add: stream_after_open)
  from wait_release_exit [OF a, of env "current_direction ?s3" "rec_polls c"] obtain s4 where
    w: "wait_for_button_release_or_switch_change env (current_direction ?s3) (rec_polls c) ?s3
          = Some (Some ''exit'', s4)"
    and e: "exit_requested s4" and n: "no_switch ?s3 s4" and st: "stream s4 = stream ?s3"
    by blast
  from st have st': "stream s4 = stream (open_stream (open_result c) s)"
    by (simp add: stream_after_open)
  show ?thesis
    using w e n st' by (rule recording_phase_stop_gen)
qed

lemma playback_phase_first:
  assumes "exit_requested s \<or> exit_early x \<or> exit_late x"
  shows "\<exists>s'. playback_phase env (x # xs) translation s = Some (Break s')
         \<and> exit_requested s' \<and> (exit_requested s \<or> exit_early x \<longrightarrow> no_switch s s')"
proof -
  let ?s1 = "emit (LedOn Green) s"
  have a: "exit_requested ?s1 \<or> exit_early x \<or> exit_late x"
    using assms(1) by (simp add: emit_sel)
  have n1: "no_switch s ?s1"
    by (simp add: no_switch_def emit_def loads_def announced_def)
  from await_first [OF a, of env xs] obtain r s2 where
    w: "await_playback_decision env (x # xs) ?s1 = Some (r, s2)"
    and e: "exit_requested s2"
    and n: "exit_requested ?s1 \<or> exit_early x \<longrightarrow> no_switch ?s1 s2"
    by blast
  let ?s3 = "emit (LedOff Green) s2"
  have n3: "no_switch s2 ?s3"
    by (simp add: no_switch_def emit_def loads_def announced_def)
  have e3: "exit_requested ?s3"
    using e by (simp add: emit_sel)
  have "playback_phase env (x # xs) translation s = Some (Break ?s3)"
    unfolding playback_phase_def w using e3 by (simp add: Let_def)
  moreover have "exit_requested s \<or> exit_early x \<longrightarrow> no_switch s ?s3"
    using n n1 n3 by (auto simp add: emit_sel intro: no_switch_trans)
  ultimately show ?thesis
    using e3 by blast
qed

lemma playback_phase_exit:
  assumes "exit_requested s"
  shows "\<exists>s'. playback_phase env polls translation s = Some (Break s')
         \<and> exit_requested s' \<and> no_switch s s'"
proof -
  let ?s1 = "emit (LedOn Green) s"
  have a: "exit_requested ?s1"
    using assms(1) by (simp add: emit_sel)
  have n1: "no_switch s ?s1"
    by (simp add: no_switch_def emit_def loads_def announced_def)
  from await_exit [OF a, of env polls] obtain s2 where
    w: "await_playback_decision env polls ?s1 = Some (False, s2)"
    and e: "exit_requested s2" and n: "no_switch ?s1 s2"
    by blast
  let ?s3 = "emit (LedOff Green) s2"
  have n3: "no_switch s2 ?s3"
    by (simp add: no_switch_def emit_def loads_def announced_def)
  have e3: "exit_requested ?s3"
    using e by (simp add: emit_sel)
  have "playback_phase env polls translation s = Some (Break ?s3)"
    unfolding playback_phase_def w using e3 by (simp add: Let_def)
  moreover have "no_switch s ?s3"
    using n1 n n3 by (blast intro: no_switch_trans)
  ultimately show ?thesis
    using e3 by blast
qed

text \<open>
  Where exit does take precedence over a change of direction.  When the exit flag is set
  at the start, every pass of the main loop (IDLE), every recording (RECORDING) and every
  wait for the playback decision (AWAITING_PLAYBACK_DECISION) ends the loop, whatever
  the polls offer (a moved switch included), and no switch of direction takes place:
  \<open>current_direction\<close> and the resident models are unchanged, nothing is collected or
  constructed and no mode announcement is played.  The same holds when the exit callback
  completes during the first poll of the wait: in IDLE and RECORDING before or after that
  iteration's test of the flag (both test the flag again after the wait has returned), in
  AWAITING_PLAYBACK_DECISION only before the test.  A recording whose stream name is
  unbound ends with NameError instead of \<open>break\<close>; it does not switch either.
\<close>

lemma exit_at_test_no_switch:
  "(exit_requested s \<longrightarrow>
      (\<exists>s'. main_body env c s = Some (Break s') \<and> no_switch s s')
    \<and> (\<exists>s'. recording_phase env c s =
           Some (if stream s = None \<and> open_result c = ConstructorRaises
                 then Raise NameError s' else Break s') \<and> no_switch s s')
    \<and> (\<exists>s'. playback_phase env polls translation s = Some (Break s') \<and> no_switch s s'))
   \<and> (exit_early x \<or> exit_late x \<longrightarrow> idle_polls c = x # xs \<longrightarrow>
      (\<exists>s'. main_body env c s = Some (Break s') \<and> no_switch s s'))
   \<and> (exit_early x \<or> exit_late x \<longrightarrow> rec_polls c = x # xs \<longrightarrow>
      (\<exists>s'. recording_phase env c s =
           Some (if stream s = None \<and> open_result c = ConstructorRaises
                 then Raise NameError s' else Break s') \<and> no_switch s s'))
   \<and> (exit_early x \<longrightarrow>
      (\<exists>s'. playback_phase env (x # xs) translation s = Some (Break s') \<and> no_switch s s'))"
proof -
  have a: "\<exists>s'. main_body env c s = Some (Break s') \<and> no_switch s s'"
    if "exit_requested s"
    using main_body_exit [OF that, of env c] by blast
  have b: "\<exists>s'. recording_phase env c s =
           Some (if stream s = None \<and> open_result c = ConstructorRaises
                 then Raise NameError s' else Break s') \<and> no_switch s s'"
    if "exit_requested s"
    using recording_phase_exit [OF that, of env c] by blast
  have c: "\<exists>s'. playback_phase env polls translation s = Some (Break s') \<and> no_switch s s'"
    if "exit_requested s"
    using playback_phase_exit [OF that, of env polls translation] by blast
  have d: "\<exists>s'. main_body env c s = Some (Break s') \<and> no_switch s s'"
    if "exit_early x \<or> exit_late x" "idle_polls c = x # xs"
    using main_body_break [of s x c xs env] that by blast
  have e: "\<exists>s'. recording_phase env c s =
           Some (if stream s = None \<and> open_result c = ConstructorRaises
                 then Raise NameError s' else Break s') \<and> no_switch s s'"
    if "exit_early x \<or> exit_late x" "rec_polls c = x # xs"
    using recording_phase_first [of s x c xs env] that by blast
  have f: "\<exists>s'. playback_phase env (x # xs) translation s = Some (Break s') \<and> no_switch s s'"
    if "exit_early x"
    using playback_phase_first [of s x env xs translation] that by blast
  show ?thesis
    using a b c d e f by blast
qed

text \<open>
  C8.  The exit flag is monotonic: \<open>exit_program\<close> sets it, and no function of the
  module clears it.  Once it is set, each of the three polling loops resolves to the
  exit outcome at its next test, without needing a further poll (the lists of polls are
  arbitrary, the empty one included): the two wait functions return \<open>"exit"\<close>, the
  playback wait ends with \<open>play_translation = False\<close>, and the pass around each of
  them breaks out of the main loop, as does the test of the main loop itself.  When the
  callback completes during an iteration of a loop, the loop ends in that iteration or
  at the test of the next one, with the flag set, and the pass breaks.  (A recording
  whose stream name is unbound leaves the loop with NameError instead.)
\<close>

theorem exit_flag_monotonic_and_prompt:
  "exit_requested (exit_program env s)
   \<and> (exit_requested s \<longrightarrow>
        exit_requested (exit_cb env b s) \<and> exit_requested (emit e s)
      \<and> exit_requested (time_sleep n s) \<and> exit_requested (play_audio_file env f s)
      \<and> exit_requested (unload_models s) \<and> exit_requested (load_models d s)
      \<and> exit_requested (switch_direction env d s)
      \<and> exit_requested (play_mode_announcement env d s)
      \<and> exit_requested (play_no_audio env d s)
      \<and> exit_requested (callback s buffer) \<and> exit_requested (deliver buffers s)
      \<and> exit_requested (open_stream r s) \<and> exit_requested (snd (stop_capture late s))
      \<and> exit_requested (drain_queue s)
      \<and> exit_requested (snd (transcribe env audio rate s))
      \<and> exit_requested (snd (translate env text s))
      \<and> exit_requested (snd (speak env text s))
      \<and> exit_requested (shutdown s)
      \<and> (\<exists>s'. wait_for_button_or_switch_change env ld polls s = Some (Some ''exit'', s')
            \<and> exit_requested s')
      \<and> (\<exists>s'. wait_for_button_release_or_switch_change env ld polls s
              = Some (Some ''exit'', s') \<and> exit_requested s')
      \<and> (\<exists>s'. await_playback_decision env polls s = Some (False, s') \<and> exit_requested s')
      \<and> (\<exists>s'. main_body env c s = Some (Break s') \<and> exit_requested s')
      \<and> (\<exists>s'. recording_phase env c s =
             Some (if stream s = None \<and> open_result c = ConstructorRaises
                   then Raise NameError s' else Break s') \<and> exit_requested s')
      \<and> (\<exists>s'. playback_phase env polls translation s = Some (Break s')
            \<and> exit_requested s')
      \<and> main_loop env cycles s = Some (None, s))
   \<and> (exit_early x \<or> exit_late x \<longrightarrow>
        (\<exists>v s'. wait_for_button_or_switch_change env ld (x # xs) s = Some (v, s')
            \<and> exit_requested s')
      \<and> (\<exists>v s'. wait_for_button_release_or_switch_change env ld (x # xs) s = Some (v, s')
            \<and> exit_requested s')
      \<and> (\<exists>v s'. await_playback_decision env (x # xs) s = Some (v, s') \<and> exit_requested s')
      \<and> (idle_polls c = x # xs \<longrightarrow>
            (\<exists>s'. main_body env c s = Some (Break s') \<and> exit_requested s'))
      \<and> (rec_polls c = x # xs \<longrightarrow>
            (\<exists>s'. recording_phase env c s =
               Some (if stream s = None \<and> open_result c = ConstructorRaises
                     then Raise NameError s' else Break s') \<and> exit_requested s'))
      \<and> (\<exists>s'. playback_phase env (x # xs) translation s = Some (Break s')
            \<and> exit_requested s'))"
proof -
  have p: "exit_requested (exit_program env s)"
    by (simp add: exit_program_eq)
  have m1: "exit_requested (exit_cb env b s) \<and> exit_requested (emit e s)
      \<and> exit_requested (time_sleep n s) \<and> exit_requested (play_audio_file env f s)
      \<and> exit_requested (unload_models s) \<and> exit_requested (load_models d s)
      \<and> exit_requested (switch_direction env d s)
      \<and> exit_requested (play_mode_announcement env d s)
      \<and> exit_requested (play_no_audio env d s)" if "exit_requested s"
    using that
    by (simp add: exit_cb_sel emit_def time_sleep_def play_audio_file_def unload_models_def
        unload_models_state exit_requested_load_models exit_requested_switch_direction
        play_mode_announcement_def play_no_audio_def)
  have m2: "exit_requested (callback s buffer) \<and> exit_requested (deliver buffers s)
      \<and> exit_requested (open_stream r s) \<and> exit_requested (snd (stop_capture late s))
      \<and> exit_requested (drain_queue s)
      \<and> exit_requested (snd (transcribe env audio rate s))
      \<and> exit_requested (snd (translate env text s))
      \<and> exit_requested (snd (speak env text s))
      \<and> exit_requested (shutdown s)" if "exit_requested s"
    using that
    by (cases r)
      (simp_all add: callback_def callback_test_def callback_put_def deliver_sel stop_capture_sel drain_queue_eq transcribe_def
        translate_def speak_def shutdown_def emit_def Let_def split: option.splits)
  have l1: "\<exists>s'. wait_for_button_or_switch_change env ld polls s = Some (Some ''exit'', s')
            \<and> exit_requested s'" if "exit_requested s"
    using wait_idle_exit [OF that, of env ld polls] by blast
  have l2: "\<exists>s'. wait_for_button_release_or_switch_change env ld polls s
              = Some (Some ''exit'', s') \<and> exit_requested s'" if "exit_requested s"
    using wait_release_exit [OF that, of env ld polls] by blast
  have l3: "\<exists>s'. await_playback_decision env polls s = Some (False, s') \<and> exit_requested s'"
    if "exit_requested s"
    using await_exit [OF that, of env polls] by blast
  have b1: "\<exists>s'. main_body env c s = Some (Break s') \<and> exit_requested s'"
    if "exit_requested s"
    using main_body_exit [OF that, of env c] by blast
  have b2: "\<exists>s'. recording_phase env c s =
             Some (if stream s = None \<and> open_result c = ConstructorRaises
                   then Raise NameError s' else Break s') \<and> exit_requested s'"
    if "exit_requested s"
    using recording_phase_exit [OF that, of env c] by blast
  have b3: "\<exists>s'. playback_phase env polls translation s = Some (Break s')
            \<and> exit_requested s'" if "exit_requested s"
    using playback_phase_exit [OF that, of env polls translation] by blast
  have b4: "main_loop env cycles s = Some (None, s)" if "exit_requested s"
    using that by (cases cycles) simp_all
  have f1: "\<exists>v s'. wait_for_button_or_switch_change env ld (x # xs) s = Some (v, s')
            \<and> exit_requested s'" if "exit_early x \<or> exit_late x"
    using wait_idle_first [of s x env ld xs] that by blast
  have f2: "\<exists>v s'. wait_for_button_release_or_switch_change env ld (x # xs) s = Some (v, s')
            \<and> exit_requested s'" if "exit_early x \<or> exit_late x"
    using wait_release_first [of s x env ld xs] that by blast
  have f3: "\<exists>v s'. await_playback_decision env (x # xs) s = Some (v, s') \<and> exit_requested s'"
    if "exit_early x \<or> exit_late x"
    using await_first [of s x env xs] that by blast
  have g1: "\<exists>s'. main_body env c s = Some (Break s') \<and> exit_requested s'"
    if "exit_early x \<or> exit_late x" "idle_polls c = x # xs"
    using main_body_break [of s x c xs env] that by blast
  have g2: "\<exists>s'. recording_phase env c s =
               Some (if stream s = None \<and> open_result c = ConstructorRaises
                     then Raise NameError s' else Break s') \<and> exit_requested s'"
    if "exit_early x \<or> exit_late x" "rec_polls c = x # xs"
    using recording_phase_first [of s x c xs env] that by blast
  have g3: "\<exists>s'. playback_phase env (x # xs) translation s = Some (Break s')
            \<and> exit_requested s'" if "exit_early x \<or> exit_late x"
    using playback_phase_first [of s x env xs translation] that by blast
  have A: "exit_requested s \<longrightarrow>
        exit_requested (exit_cb env b s) \<and> exit_requested (emit e s)
      \<and> exit_requested (time_sleep n s) \<and> exit_requested (play_audio_file env f s)
      \<and> exit_requested (unload_models s) \<and> exit_requested (load_models d s)
      \<and> exit_requested (switch_direction env d s)
      \<and> exit_requested (play_mode_announcement env d s)
      \<and> exit_requested (play_no_audio env d s)
      \<and> exit_requested (callback s buffer) \<and> exit_requested (deliver buffers s)
      \<and> exit_requested (open_stream r s) \<and> exit_requested (snd (stop_capture late s))
      \<and> exit_requested (drain_queue s)
      \<and> exit_requested (snd (transcribe env audio rate s))
      \<and> exit_requested (snd (translate env text s))
      \<and> exit_requested (snd (speak env text s))
      \<and> exit_requested (shutdown s)
      \<and> (\<exists>s'. wait_for_button_or_switch_change env ld polls s = Some (Some ''exit'', s')
            \<and> exit_requested s')
      \<and> (\<exists>s'. wait_for_button_release_or_switch_change env ld polls s
              = Some (Some ''exit'', s') \<and> exit_requested s')
      \<and> (\<exists>s'. await_playback_decision env polls s = Some (False, s') \<and> exit_requested s')
      \<and> (\<exists>s'. main_body env c s = Some (Break s') \<and> exit_requested s')
      \<and> (\<exists>s'. recording_phase env c s =
             Some (if stream s = None \<and> open_result c = ConstructorRaises
                   then Raise NameError s' else Break s') \<and> exit_requested s')
      \<and> (\<exists>s'. playback_phase env polls translation s = Some (Break s')
            \<and> exit_requested s')
      \<and> main_loop env cycles s = Some (None, s)"
    using m1 m2 l1 l2 l3 b1 b2 b3 b4 by (intro impI conjI) simp_all
  have B: "exit_early x \<or> exit_late x \<longrightarrow>
        (\<exists>v s'. wait_for_button_or_switch_change env ld (x # xs) s = Some (v, s')
            \<and> exit_requested s')
      \<and> (\<exists>v s'. wait_for_button_release_or_switch_change env ld (x # xs) s = Some (v, s')
            \<and> exit_requested s')
      \<and> (\<exists>v s'. await_playback_decision env (x # xs) s = Some (v, s') \<and> exit_requested s')
      \<and> (idle_polls c = x # xs \<longrightarrow>
            (\<exists>s'. main_body env c s = Some (Break s') \<and> exit_requested s'))
      \<and> (rec_polls c = x # xs \<longrightarrow>
            (\<exists>s'. recording_phase env c s =
               Some (if stream s = None \<and> open_result c = ConstructorRaises
                     then Raise NameError s' else Break s') \<and> exit_requested s'))
      \<and> (\<exists>s'. playback_phase env (x # xs) translation s = Some (Break s')
            \<and> exit_requested s')"
    using f1 f2 f3 g1 g2 g3 by (intro impI conjI) simp_all
  show ?thesis
    using p A B by (intro conjI)
qed

lemma ready_sel:
  "\<not> exit_requested ready" "stream ready = None" "current_direction ready = ''en_to_es''"
  by (simp_all add: ready_state initial_state_def)

lemma exit_at_test_no_switch_example:
  "exit_early (exit_and_flip False)
   \<and> get_translation_direction (switch_is_1 (exit_and_flip False)) \<noteq> current_direction ready
   \<and> idle_polls (one_recording\<lparr>idle_polls := [exit_and_flip False]\<rparr>) = [exit_and_flip False]
   \<and> (\<exists>s'. main_body bench_env (one_recording\<lparr>idle_polls := [exit_and_flip False]\<rparr>) ready
          = Some (Break s') \<and> no_switch ready s')
   \<and> rec_polls (one_recording\<lparr>rec_polls := [exit_and_flip True]\<rparr>) = [exit_and_flip True]
   \<and> (\<exists>s'. recording_phase bench_env (one_recording\<lparr>rec_polls := [exit_and_flip True]\<rparr>) ready
          = Some (Break s') \<and> no_switch ready s')
   \<and> (\<exists>s'. playback_phase bench_env [exit_and_flip False] [104, 105] ready
          = Some (Break s') \<and> no_switch ready s')
   \<and> exit_requested (ready\<lparr>exit_requested := True\<rparr>)
   \<and> (\<exists>s'. main_body bench_env one_recording (ready\<lparr>exit_requested := True\<rparr>)
          = Some (Break s') \<and> no_switch (ready\<lparr>exit_requested := True\<rparr>) s')"
proof -
  have a: "exit_early (exit_and_flip b)" for b
    by (simp add: exit_and_flip_def)
  have d: "get_translation_direction (switch_is_1 (exit_and_flip False))
      \<noteq> current_direction ready"
    by (simp add: exit_and_flip_def get_translation_direction_def ready_sel)
  have o: "open_result (one_recording\<lparr>rec_polls := [exit_and_flip True]\<rparr>) = Opens"
    by (simp add: one_recording_def)
  show ?thesis
    using a d o
      exit_at_test_no_switch [of ready bench_env "one_recording\<lparr>idle_polls := [exit_and_flip False]\<rparr>"
        "[]" "[104, 105]" "exit_and_flip False" "[]"]
      exit_at_test_no_switch [of ready bench_env "one_recording\<lparr>rec_polls := [exit_and_flip True]\<rparr>"
        "[]" "[104, 105]" "exit_and_flip True" "[]"]
      exit_at_test_no_switch [of "ready\<lparr>exit_requested := True\<rparr>" bench_env one_recording
        "[]" "[104, 105]" "exit_and_flip True" "[]"]
    by simp
qed

theorem exit_flag_monotonic_and_prompt_witness:
  "exit_requested (exit_program bench_env ready)
   \<and> (\<exists>s'. wait_for_button_or_switch_change bench_env ''en_to_es'' []
            (exit_program bench_env ready) = Some (Some ''exit'', s') \<and> exit_requested s')
   \<and> (\<exists>s'. wait_for_button_release_or_switch_change bench_env ''en_to_es'' [held []]
            (exit_program bench_env ready) = Some (Some ''exit'', s') \<and> exit_requested s')
   \<and> main_loop bench_env [one_recording] (exit_program bench_env ready)
       = Some (None, exit_program bench_env ready)
   \<and> exit_late (flip_then_exit False)
   \<and> idle_polls (one_recording\<lparr>idle_polls := [flip_then_exit False]\<rparr>) = [flip_then_exit False]
   \<and> (\<exists>s'. main_body bench_env (one_recording\<lparr>idle_polls := [flip_then_exit False]\<rparr>) ready
          = Some (Break s') \<and> exit_requested s')
   \<and> (\<exists>s'. playback_phase bench_env [flip_then_exit False] [104, 105] ready
          = Some (Break s') \<and> exit_requested s')"
proof -
  have a: "exit_requested (exit_program bench_env ready)"
    by (simp add: exit_program_eq)
  have b: "exit_late (flip_then_exit False)"
    by (simp add: flip_then_exit_def)
  show ?thesis
    using a b
      exit_flag_monotonic_and_prompt [of bench_env "exit_program bench_env ready" False
        "LedOn Red" 0 "[]" "''en_to_es''" "[]" "[]" Opens
        "\<lparr>in_flight = None, after_clear = []\<rparr>" "[]" 16000 "[]" "''en_to_es''" "[]"
        one_recording "[]" "[one_recording]" "flip_then_exit False" "[]"]
      exit_flag_monotonic_and_prompt [of bench_env "exit_program bench_env ready" False
        "LedOn Red" 0 "[]" "''en_to_es''" "[]" "[]" Opens
        "\<lparr>in_flight = None, after_clear = []\<rparr>" "[]" 16000 "[]" "''en_to_es''" "[held []]"
        one_recording "[]" "[one_recording]" "flip_then_exit False" "[]"]
      exit_flag_monotonic_and_prompt [of bench_env ready False
        "LedOn Red" 0 "[]" "''en_to_es''" "[]" "[]" Opens
        "\<lparr>in_flight = None, after_clear = []\<rparr>" "[]" 16000 "[]" "''en_to_es''" "[]"
        "one_recording\<lparr>idle_polls := [flip_then_exit False]\<rparr>" "[104, 105]" "[]"
        "flip_then_exit False" "[]"]
    by simp
qed

subsection \<open>The exit flag in the wait for the playback decision\<close>

lemma bench_env_sel:
  "path_exists bench_env f" "APLAY_DEVICE bench_env = ''plughw:3,0''"
  "final_result bench_env m a = Some (JObject [(TEXT_KEY, JString [104, 105])])"
  "restore_punctuation bench_env t = t @ [46]"
  "sp_encode bench_env m t = [t]" "translate_batch bench_env m ts = butlast ts"
  "sp_decode bench_env m ts = concat ts"
  by (simp_all add: bench_env_def)

text \<open>
  C1.  The wait for the playback decision tests the exit flag once per iteration, in the
  head of its \<open>while\<close>, and the branch that switches the direction does not test it
  again (the two wait functions are followed by \<open>if exit_requested or ...: break\<close>
  before the switch; here the test that follows, \<open>if exit_requested: break\<close>, comes
  after it).  So when the exit callback completes between the test and the reading of the
  switch, and the switch has been moved, the switch of direction is taken with the flag
  set.  In the wait started from the state \<open>ready\<close> with the green LED on, the poll
  \<open>flip_then_exit False\<close> ends in \<open>switch_direction\<close> applied to a state whose
  exit flag is set.  In the pass \<open>exit_during_playback_wait\<close> the loop is left by
  \<open>break\<close> with the flag set, but only after the switch: the direction is now
  \<open>es_to_en\<close>, the ModelSet of \<open>es_to_en\<close> is resident, and in the trace the
  events of the exit callback are followed by the collection, the four constructions
  and the mode announcement of the new direction.
\<close>

theorem switch_taken_with_exit_flag_set:
  "\<not> exit_requested (emit (LedOn Green) ready)
   \<and> exit_requested (exit_cb bench_env (exit_late (flip_then_exit False))
         (emit (LedOn Green) ready))
   \<and> await_playback_decision bench_env [flip_then_exit False] (emit (LedOn Green) ready)
       = Some (False,
           switch_direction bench_env ''es_to_en''
             (emit (LedOff Green)
                (exit_cb bench_env (exit_late (flip_then_exit False))
                   (emit (LedOn Green) ready))))
   \<and> (\<exists>s'. main_body bench_env exit_during_playback_wait ready = Some (Break s')
        \<and> exit_requested s'
        \<and> current_direction ready = ''en_to_es'' \<and> current_direction s' = ''es_to_en''
        \<and> live s' = model_set ''es_to_en''
        \<and> \<not> no_switch ready s'
        \<and> trace s' = trace ready
            @ [LedOff Red, LedOff Green, Sleep 10, LedOn Red, Sleep 10, Sleep 10, LedOff Red,
               LedOn Red, Recognize (VoskModel VOSK_EN) 16000 [1, 2, 3, 4, 5], LedOff Red,
               Punctuate [104, 105], LedOn Red,
               TranslateBatch (Translator CT_EN_ES) [[104, 105, 46], EOS], LedOff Red,
               LedOn Green, Sleep 10]
            @ exit_events bench_env
            @ [LedOff Green, GcCollect] @ map Construct (model_set ''es_to_en'')
            @ [Aplay ''plughw:3,0'' MODE_ES_EN_FILE, LedOff Green])"
proof -
  have a: "\<not> exit_requested (emit (LedOn Green) ready)"
    by (simp add: emit_sel ready_sel)
  have b: "exit_requested (exit_cb bench_env (exit_late (flip_then_exit False))
         (emit (LedOn Green) ready))"
    by (simp add: exit_cb_sel flip_then_exit_def)
  have c: "await_playback_decision bench_env [flip_then_exit False] (emit (LedOn Green) ready)
       = Some (False,
           switch_direction bench_env ''es_to_en''
             (emit (LedOff Green)
                (exit_cb bench_env (exit_late (flip_then_exit False))
                   (emit (LedOn Green) ready))))"
    by (simp add: Let_def flip_then_exit_def exit_cb_sel emit_sel ready_sel
        get_translation_direction_def exit_cb_eq [of bench_env False])
  have d: "\<exists>s'. main_body bench_env exit_during_playback_wait ready = Some (Break s')
        \<and> exit_requested s'
        \<and> current_direction ready = ''en_to_es'' \<and> current_direction s' = ''es_to_en''
        \<and> live s' = model_set ''es_to_en''
        \<and> \<not> no_switch ready s'
        \<and> trace s' = trace ready
            @ [LedOff Red, LedOff Green, Sleep 10, LedOn Red, Sleep 10, Sleep 10, LedOff Red,
               LedOn Red, Recognize (VoskModel VOSK_EN) 16000 [1, 2, 3, 4, 5], LedOff Red,
               Punctuate [104, 105], LedOn Red,
               TranslateBatch (Translator CT_EN_ES) [[104, 105, 46], EOS], LedOff Red,
               LedOn Green, Sleep 10]
            @ exit_events bench_env
            @ [LedOff Green, GcCollect] @ map Construct (model_set ''es_to_en'')
            @ [Aplay ''plughw:3,0'' MODE_ES_EN_FILE, LedOff Green]"
    by (simp add: main_body_def recording_phase_def process_audio_def process_text_def
        playback_phase_def exit_during_playback_wait_def one_recording_def quiet_def held_def
        released_def flip_then_exit_def ready_state initial_state_def emit_def exit_cb_eq
        deliver_eq time_sleep_def get_translation_direction_def Let_def stop_capture_eq
        in_flight_put_def drain_queue_eq np_concatenate_def transcribe_def translate_def
        bench_env_sel TEXT_KEY_def py_strip_def py_isspace_def switch_direction_def
        load_models_state play_mode_announcement_def play_audio_file_def no_switch_def
        model_set_def)
  show ?thesis
    using a b c d by (intro conjI)
qed

subsection \<open>A change of direction during a recording\<close>


lemma wait_release_mono:
  assumes "wait_for_button_release_or_switch_change env ld polls s = Some (r, s')"
    and "exit_requested s"
  shows "exit_requested s'"
  using wait_release_exit [OF assms(2), of env ld polls] assms(1) by auto

lemma wait_release_no_exit:
  assumes "wait_for_button_release_or_switch_change env ld polls s = Some (r, s')"
    and "\<not> exit_requested s'"
  shows "s'\<lparr>q := q s, trace := trace s\<rparr> = s
    \<and> (\<exists>n. trace s' = trace s @ replicate n (Sleep 10))
    \<and> (r = None \<or> (\<exists>d. r = Some d \<and> d \<noteq> ld \<and> (d = ''en_to_es'' \<or> d = ''es_to_en'')))"
  using assms
proof (induction polls arbitrary: s)
  case Nil
  then show ?case by (simp split: if_splits)
next
  case (Cons x xs)
  let ?s1 = "deliver (delivered x) (exit_cb env (exit_early x) s)"
  have none: "\<not> (exit_requested s \<or> exit_early x \<or> exit_late x)"
    using wait_release_first [of s x env ld xs] Cons.prems by auto
  then have early: "\<not> exit_early x" and late: "\<not> exit_late x"
    and nes: "\<not> exit_requested s"
    by simp_all
  have s1: "?s1 = deliver (delivered x) s"
    using early by (simp add: exit_cb_eq)
  show ?case
  proof (cases "button_active x \<and> get_translation_direction (switch_is_1 x) = ld")
    case True
    let ?mid = "time_sleep 10 (exit_cb env (exit_late x) (deliver (delivered x) s))"
    from True nes s1 Cons.prems(1)
    have w: "wait_for_button_release_or_switch_change env ld xs ?mid = Some (r, s')"
      by (simp add: Let_def deliver_sel)
    have mid: "?mid = time_sleep 10 (deliver (delivered x) s)"
      using late by (simp add: exit_cb_eq)
    from Cons.IH [OF w Cons.prems(2)]
    have ih1: "s'\<lparr>q := q ?mid, trace := trace ?mid\<rparr> = ?mid"
      and ih2: "\<exists>n. trace s' = trace ?mid @ replicate n (Sleep 10)"
      and ih3: "r = None \<or> (\<exists>d. r = Some d \<and> d \<noteq> ld \<and> (d = ''en_to_es'' \<or> d = ''es_to_en''))"
      by blast+
    from ih1 have "(s'\<lparr>q := q ?mid, trace := trace ?mid\<rparr>)\<lparr>q := q s, trace := trace s\<rparr>
        = ?mid\<lparr>q := q s, trace := trace s\<rparr>"
      by simp
    then have a: "s'\<lparr>q := q s, trace := trace s\<rparr> = s"
      by (simp add: late exit_cb_eq time_sleep_def emit_def deliver_eq)
    from ih2 obtain n where "trace s' = trace ?mid @ replicate n (Sleep 10)" ..
    then have "trace s' = trace s @ replicate (Suc n) (Sleep 10)"
      by (simp add: late exit_cb_eq time_sleep_def emit_def deliver_eq)
    then have b: "\<exists>n. trace s' = trace s @ replicate n (Sleep 10)" ..
    show ?thesis using a b ih3 by blast
  next
    case False
    let ?s2 = "exit_cb env (exit_late x) (deliver (delivered x) s)"
    from False nes s1 Cons.prems(1)
    have res: "s' = ?s2 \<and> (r = None \<or> r = Some ''exit'' \<or>
        (r = Some (get_translation_direction (switch_is_1 x))
          \<and> get_translation_direction (switch_is_1 x) \<noteq> ld))"
      by (auto simp add: Let_def deliver_sel split: if_splits)
    have s': "s' = deliver (delivered x) s"
      using res late by (simp add: exit_cb_eq)
    have rr: "r \<noteq> Some ''exit''"
      using False nes s1 Cons.prems(1) late
      by (auto simp add: Let_def deliver_sel exit_cb_eq get_translation_direction_def
          split: if_splits)
    have a: "s'\<lparr>q := q s, trace := trace s\<rparr> = s"
      by (simp add: s' deliver_eq)
    have "trace s' = trace s @ replicate 0 (Sleep 10)"
      by (simp add: s' deliver_eq)
    then have b: "\<exists>n. trace s' = trace s @ replicate n (Sleep 10)" ..
    have c: "r = None \<or> (\<exists>d. r = Some d \<and> d \<noteq> ld \<and> (d = ''en_to_es'' \<or> d = ''es_to_en''))"
      using res rr by (cases "switch_is_1 x") (auto simp add: get_translation_direction_def)
    show ?thesis using a b c by blast
  qed
qed

lemma switch_direction_obs:
  assumes "d = ''en_to_es'' \<or> d = ''es_to_en''"
  shows "current_direction (switch_direction env d s) = d"
    and "live (switch_direction env d s) = model_set d"
    and "referenced (switch_direction env d s) = model_set d"
    and "trace (switch_direction env d s) =
           trace s @ GcCollect # map Construct (model_set d)
             @ (if path_exists env (mode_file d) then [Aplay (APLAY_DEVICE env) (mode_file d)]
                else [])"
    and "stream (switch_direction env d s) = stream s"
    and "recording (switch_direction env d s) = recording s"
    and "exit_requested (switch_direction env d s) = exit_requested s"
  using assms
  by (auto simp add: switch_direction_def play_mode_announcement_def play_audio_file_def
      emit_def load_models_state model_set_def referenced_def mode_file_def)

lemma recording_phase_fresh_queue:
  "recording_phase env c (s\<lparr>q := x, frames := y\<rparr>) = recording_phase env c s"
  by (simp add: recording_phase_def)

text \<open>
  The change of direction where the name \<open>stream\<close> is bound.  Suppose the wait of a
  recording returns a direction \<open>d\<close> while the exit flag is not set, and the name
  \<open>stream\<close> is bound (the stream opened, or an earlier recording had bound it).
  Then \<open>d\<close> is one of the two directions and differs from
  the current one, and the pass stops the capture (flag cleared, stream closed), sets
  \<open>current_direction\<close> to \<open>d\<close>, loads the ModelSet of \<open>d\<close>, plays the mode
  announcement of \<open>d\<close> (when its file exists) and continues with the next pass of the
  main loop (IDLE).  Neither the recognizer nor the translator is called in that pass,
  and the buffers left in the queue are of no consequence: a later recording behaves as
  if the queue had been emptied.
\<close>

lemma direction_change_with_stream:
  assumes w: "wait_for_button_release_or_switch_change env (current_direction s) (rec_polls c)
        (emit (LedOn Red)
           (open_stream (open_result c) (s\<lparr>q := [], frames := [], recording := True\<rparr>)))
      = Some (Some d, s4)"
    and ne: "\<not> exit_requested s4"
    and bound: "stream s \<noteq> None \<or> open_result c \<noteq> ConstructorRaises"
  shows "\<exists>s5. recording_phase env c s = Some (Continue (switch_direction env d s5))
      \<and> stream s5 = Some Closed \<and> \<not> recording s5
      \<and> stream (switch_direction env d s5) = Some Closed
      \<and> \<not> recording (switch_direction env d s5)
      \<and> recognizer_calls (switch_direction env d s5) = recognizer_calls s
      \<and> translator_calls (switch_direction env d s5) = translator_calls s
      \<and> d \<noteq> current_direction s \<and> (d = ''en_to_es'' \<or> d = ''es_to_en'')
      \<and> current_direction (switch_direction env d s5) = d
      \<and> live (switch_direction env d s5) = model_set d
      \<and> referenced (switch_direction env d s5) = model_set d
      \<and> loads (switch_direction env d s5) = loads s @ GcCollect # map Construct (model_set d)
      \<and> played (switch_direction env d s5) = played s @
           (if path_exists env (mode_file d) then [Aplay (APLAY_DEVICE env) (mode_file d)]
            else [])
      \<and> recording_phase env c' ((switch_direction env d s5)\<lparr>q := [], frames := []\<rparr>)
          = recording_phase env c' (switch_direction env d s5)"
proof -
  let ?s3 = "emit (LedOn Red)
           (open_stream (open_result c) (s\<lparr>q := [], frames := [], recording := True\<rparr>))"
  let ?s5 = "s4\<lparr>recording := False, q := q s4 @ in_flight_put (late_audio c) s4,
      stream := Some Closed, trace := trace s4 @ [LedOff Red]\<rparr>"
  have cd: "current_direction ?s3 = current_direction s"
    by (cases "open_result c") (simp_all add: emit_def)
  have st3: "stream ?s3 \<noteq> None"
    using bound by (cases "open_result c") (simp_all add: emit_def)
  have tr3: "trace ?s3 = trace s @ [LedOn Red]"
    by (cases "open_result c") (simp_all add: emit_def)
  from wait_release_no_exit [OF w ne]
  have fr: "s4\<lparr>q := q ?s3, trace := trace ?s3\<rparr> = ?s3"
    and "\<exists>n. trace s4 = trace ?s3 @ replicate n (Sleep 10)"
    and dd: "d \<noteq> current_direction s \<and> (d = ''en_to_es'' \<or> d = ''es_to_en'')"
    by auto
  then obtain n where tr4: "trace s4 = trace s @ LedOn Red # replicate n (Sleep 10)"
    using tr3 by auto
  from fr have "stream (s4\<lparr>q := q ?s3, trace := trace ?s3\<rparr>) = stream ?s3"
    by (rule arg_cong)
  then have st4: "stream s4 \<noteq> None"
    using st3 by simp
  then have sc: "stop_capture (late_audio c) s4 = (None, ?s5)"
    by (auto simp add: stop_capture_eq)
  have d1: "d \<noteq> ''exit''" and d2: "d \<noteq> []" and d3: "d = ''en_to_es'' \<or> d = ''es_to_en''"
    using dd by auto
  have rp: "recording_phase env c s = Some (Continue (switch_direction env d ?s5))"
    unfolding recording_phase_def Let_def cd w
    using ne d1 d2 by (simp add: sc)
  have tr: "trace (switch_direction env d ?s5) =
      trace s @ LedOn Red # replicate n (Sleep 10) @ LedOff Red # GcCollect
        # map Construct (model_set d)
        @ (if path_exists env (mode_file d) then [Aplay (APLAY_DEVICE env) (mode_file d)]
           else [])"
    by (simp add: switch_direction_obs [OF d3] tr4)
  have obs: "recognizer_calls (switch_direction env d ?s5) = recognizer_calls s"
    "translator_calls (switch_direction env d ?s5) = translator_calls s"
    "loads (switch_direction env d ?s5) = loads s @ GcCollect # map Construct (model_set d)"
    "played (switch_direction env d ?s5) = played s @
           (if path_exists env (mode_file d) then [Aplay (APLAY_DEVICE env) (mode_file d)]
            else [])"
    by (simp_all add: tr recognizer_calls_def translator_calls_def loads_def played_def
        o_def)
  show ?thesis
    using rp obs dd switch_direction_obs [OF d3, of env ?s5]
      recording_phase_fresh_queue [of env c' "[]" "[]" "switch_direction env d ?s5"]
    by (intro exI [of _ ?s5]) simp
qed

lemma direction_change_with_stream_example:
  "wait_for_button_release_or_switch_change bench_env (current_direction ready)
       (rec_polls interrupted_recording)
       (emit (LedOn Red) (open_stream (open_result interrupted_recording)
          (ready\<lparr>q := [], frames := [], recording := True\<rparr>)))
     = Some (Some ''es_to_en'',
         time_sleep 10 (deliver [[1, 2]] (emit (LedOn Red) (open_stream Opens
          (ready\<lparr>q := [], frames := [], recording := True\<rparr>)))))
   \<and> \<not> exit_requested (time_sleep 10 (deliver [[1, 2]] (emit (LedOn Red) (open_stream Opens
          (ready\<lparr>q := [], frames := [], recording := True\<rparr>)))))
   \<and> open_result interrupted_recording \<noteq> ConstructorRaises
   \<and> (\<exists>s5. recording_phase bench_env interrupted_recording ready
            = Some (Continue (switch_direction bench_env ''es_to_en'' s5))
        \<and> recognizer_calls (switch_direction bench_env ''es_to_en'' s5) = 0
        \<and> current_direction (switch_direction bench_env ''es_to_en'' s5) = ''es_to_en''
        \<and> live (switch_direction bench_env ''es_to_en'' s5) = model_set ''es_to_en''
        \<and> played (switch_direction bench_env ''es_to_en'' s5)
            = [Aplay ''plughw:3,0'' MODE_EN_ES_FILE, Aplay ''plughw:3,0'' MODE_ES_EN_FILE])"
proof -
  let ?s4 = "time_sleep 10 (deliver [[1, 2]] (emit (LedOn Red) (open_stream Opens
          (ready\<lparr>q := [], frames := [], recording := True\<rparr>))))"
  have w: "wait_for_button_release_or_switch_change bench_env (current_direction ready)
       (rec_polls interrupted_recording)
       (emit (LedOn Red) (open_stream (open_result interrupted_recording)
          (ready\<lparr>q := [], frames := [], recording := True\<rparr>)))
     = Some (Some ''es_to_en'', ?s4)"
    by (simp add: interrupted_recording_def one_recording_def held_def flipped_def ready_state
        initial_state_def emit_def exit_cb_eq deliver_eq time_sleep_def
        get_translation_direction_def Let_def)
  have ne: "\<not> exit_requested ?s4"
    by (simp add: time_sleep_def emit_sel deliver_sel ready_sel)
  have o: "open_result interrupted_recording \<noteq> ConstructorRaises"
    by (simp add: interrupted_recording_def one_recording_def)
  then have b: "stream ready \<noteq> None \<or> open_result interrupted_recording \<noteq> ConstructorRaises"
    by simp
  have r0: "recognizer_calls ready = 0"
    "played ready = [Aplay ''plughw:3,0'' MODE_EN_ES_FILE]"
    by (simp_all add: recognizer_calls_def played_def ready_state initial_state_def model_set_def)
  have e: "path_exists bench_env f"
    "APLAY_DEVICE bench_env = ''plughw:3,0''" "mode_file ''es_to_en'' = MODE_ES_EN_FILE" for f
    by (simp_all add: bench_env_def mode_file_def)
  show ?thesis
    using w ne o direction_change_with_stream [OF w ne b, of one_recording]
    by (auto simp add: r0 e)
qed

subsection \<open>A recording without an input stream\<close>

lemma recording_without_stream_aux:
  assumes "list_all (holding (current_direction s)) hs" and "releasing r"
    and "\<not> exit_requested s" and "rec_polls c = hs @ r # rest"
    and o: "open_stream (open_result c) (s\<lparr>q := [], frames := [], recording := True\<rparr>)
        = s\<lparr>q := [], frames := [], recording := True, stream := Some st\<rparr>"
    and "st \<noteq> Started"
  shows "recording_phase env c s =
     Some (Continue (play_no_audio env (current_direction s)
       (s\<lparr>q := [], frames := [], recording := False, stream := Some Closed,
          trace := trace s @ LedOn Red # replicate (length hs) (Sleep 10) @ [LedOff Red]\<rparr>)))"
proof -
  let ?s3 = "emit (LedOn Red) (s\<lparr>q := [], frames := [], recording := True, stream := Some st\<rparr>)"
  let ?s4 = "s\<lparr>q := [], frames := [], recording := True, stream := Some st,
          trace := trace s @ LedOn Red # replicate (length hs) (Sleep 10)\<rparr>"
  have h: "list_all (holding (current_direction ?s3)) hs"
    using assms(1) by (simp add: emit_def)
  have e: "\<not> exit_requested ?s3"
    using assms(3) by (simp add: emit_def)
  have "wait_for_button_release_or_switch_change env (current_direction ?s3) (rec_polls c) ?s3
      = Some (None, ?s4)"
    unfolding assms(4) wait_release_holding [OF h e]
    using assms(2,3,6)
    by (subst wait_release_releasing) (simp_all add: emit_def deliver_eq)
  then show ?thesis
    unfolding recording_phase_def Let_def o
    using assms(3)
    apply (simp add: stop_capture_eq in_flight_put_not_started assms(6) emit_def
        process_audio_def Let_def drain_queue_eq np_concatenate_def)
    apply (rule arg_cong [where f = "play_no_audio env (current_direction s)"])
    apply (rule state.equality; simp)
    done
qed

lemma recording_without_stream:
  assumes "list_all (holding (current_direction s)) hs" and "releasing r"
    and "\<not> exit_requested s" and "rec_polls c = hs @ r # rest"
    and "open_result c = StartRaises \<or> (open_result c = ConstructorRaises \<and> stream s = Some Closed)"
  shows "recording_phase env c s =
     Some (Continue (play_no_audio env (current_direction s)
       (s\<lparr>q := [], frames := [], recording := False, stream := Some Closed,
          trace := trace s @ LedOn Red # replicate (length hs) (Sleep 10) @ [LedOff Red]\<rparr>)))"
  using assms(5)
proof
  assume "open_result c = StartRaises"
  then have "open_stream (open_result c) (s\<lparr>q := [], frames := [], recording := True\<rparr>)
        = s\<lparr>q := [], frames := [], recording := True, stream := Some Constructed\<rparr>"
    by simp
  from recording_without_stream_aux [OF assms(1-4) this, of env] show ?thesis
    by simp
next
  assume a: "open_result c = ConstructorRaises \<and> stream s = Some Closed"
  then have "open_stream (open_result c) (s\<lparr>q := [], frames := [], recording := True\<rparr>)
        = s\<lparr>q := [], frames := [], recording := True, stream := Some Closed\<rparr>"
    by (intro state.equality) simp_all
  from recording_without_stream_aux [OF assms(1-4) this, of env] show ?thesis
    by simp
qed

text \<open>
  C2.  On the first recording of a run the name \<open>stream\<close> is still unbound.  When
  the constructor of the input stream raises there, the handler reports the failure and
  the pass goes on to wait for the release of the button; the \<open>finally\<close> block then
  calls \<open>stream.stop()\<close> on the unbound name.  NameError leaves the main loop, no
  "no audio" announcement is played (the only sound played in the run is the mode
  announcement of the start), the pass does not continue with a next one, and the
  program powers the device off.  Where the name is bound (\<open>start()\<close> raised after the
  construction, or an earlier recording left its closed stream behind), the same failure
  ends as an empty recording with the "no audio" announcement: see
  \<open>recording_without_stream\<close>.
\<close>

theorem first_recording_without_microphone:
  "open_result no_microphone = ConstructorRaises
   \<and> stream ready = None
   \<and> map_option raised (main_body bench_env no_microphone ready) = Some (Some NameError)
   \<and> map_option (\<lambda>out. played (final_state out)) (main_body bench_env no_microphone ready)
       = Some [Aplay ''plughw:3,0'' MODE_EN_ES_FILE]
   \<and> map_option is_continue (main_body bench_env no_microphone ready) = Some False
   \<and> map_option fst (program bench_env False [no_microphone]) = Some (Some NameError)
   \<and> map_option (\<lambda>r. last (trace (snd r))) (program bench_env False [no_microphone])
       = Some Shutdown"
proof -
  have a: "main_body bench_env no_microphone ready =
     Some (Raise NameError
       (ready\<lparr>q := [], frames := [], recording := False,
          trace := trace ready @ [LedOff Red, LedOff Green, LedOn Red, Sleep 10]\<rparr>))"
    by (simp add: main_body_def recording_phase_def no_microphone_def held_def released_def
        ready_state initial_state_def emit_def exit_cb_eq deliver_eq time_sleep_def
        get_translation_direction_def Let_def stop_capture_eq)
  have b: "program bench_env False [no_microphone] =
     Some (Some NameError, shutdown
       (ready\<lparr>q := [], frames := [], recording := False,
          trace := trace ready @ [LedOff Red, LedOff Green, LedOn Red, Sleep 10]\<rparr>))"
    using a by (simp add: program_def ready_def [symmetric] ready_sel)
  show ?thesis
    unfolding a b
    by (simp add: no_microphone_def ready_state initial_state_def played_def shutdown_def
        emit_def model_set_def)
qed

text \<open>
  C5.  The same unbound name defeats a change of direction during the first recording
  of a run.  When the constructor of the input stream raises and the switch is moved
  while the button is held, the wait returns the new direction \<open>es_to_en\<close> with the
  exit flag unset, and the \<open>finally\<close> block then calls \<open>stream.stop()\<close> on the
  unbound name.  NameError leaves the main loop before the branch that acts on the
  change: the direction is still \<open>en_to_es\<close>, its ModelSet is still the resident one,
  nothing was collected or constructed, the only sound played in the run is the mode
  announcement of the start, the pass does not continue with a next one, and the program
  powers the device off.  Where the name is bound, the change of direction does all that
  is expected of it: see \<open>direction_change_with_stream\<close>.
\<close>

theorem direction_change_without_microphone:
  "open_result no_microphone_flipped = ConstructorRaises
   \<and> stream ready = None
   \<and> wait_for_button_release_or_switch_change bench_env (current_direction ready)
         (rec_polls no_microphone_flipped)
         (emit (LedOn Red)
            (open_stream (open_result no_microphone_flipped)
               (ready\<lparr>q := [], frames := [], recording := True\<rparr>)))
       = Some (Some ''es_to_en'',
           time_sleep 10 (emit (LedOn Red) (ready\<lparr>q := [], frames := [], recording := True\<rparr>)))
   \<and> \<not> exit_requested
         (time_sleep 10 (emit (LedOn Red) (ready\<lparr>q := [], frames := [], recording := True\<rparr>)))
   \<and> map_option raised (main_body bench_env no_microphone_flipped ready)
       = Some (Some NameError)
   \<and> map_option is_continue (main_body bench_env no_microphone_flipped ready) = Some False
   \<and> map_option (\<lambda>out. current_direction (final_state out))
         (main_body bench_env no_microphone_flipped ready) = Some ''en_to_es''
   \<and> map_option (\<lambda>out. live (final_state out))
         (main_body bench_env no_microphone_flipped ready) = Some (model_set ''en_to_es'')
   \<and> map_option (\<lambda>out. loads (final_state out))
         (main_body bench_env no_microphone_flipped ready) = Some (loads ready)
   \<and> map_option (\<lambda>out. played (final_state out))
         (main_body bench_env no_microphone_flipped ready)
       = Some [Aplay ''plughw:3,0'' MODE_EN_ES_FILE]
   \<and> map_option fst (program bench_env False [no_microphone_flipped]) = Some (Some NameError)
   \<and> map_option (\<lambda>r. last (trace (snd r))) (program bench_env False [no_microphone_flipped])
       = Some Shutdown"
proof -
  have w: "wait_for_button_release_or_switch_change bench_env (current_direction ready)
         (rec_polls no_microphone_flipped)
         (emit (LedOn Red)
            (open_stream (open_result no_microphone_flipped)
               (ready\<lparr>q := [], frames := [], recording := True\<rparr>)))
       = Some (Some ''es_to_en'',
           time_sleep 10 (emit (LedOn Red) (ready\<lparr>q := [], frames := [], recording := True\<rparr>)))"
    by (simp add: no_microphone_flipped_def no_microphone_def held_def flipped_def ready_state
        initial_state_def emit_def exit_cb_eq deliver_eq time_sleep_def
        get_translation_direction_def Let_def)
  have ne: "\<not> exit_requested
         (time_sleep 10 (emit (LedOn Red) (ready\<lparr>q := [], frames := [], recording := True\<rparr>)))"
    by (simp add: time_sleep_def emit_sel ready_sel)
  have a: "main_body bench_env no_microphone_flipped ready =
     Some (Raise NameError
       (ready\<lparr>q := [], frames := [], recording := False,
          trace := trace ready @ [LedOff Red, LedOff Green, LedOn Red, Sleep 10]\<rparr>))"
    by (simp add: main_body_def recording_phase_def no_microphone_flipped_def no_microphone_def
        held_def flipped_def ready_state initial_state_def emit_def exit_cb_eq deliver_eq
        time_sleep_def get_translation_direction_def Let_def stop_capture_eq)
  have b: "program bench_env False [no_microphone_flipped] =
     Some (Some NameError, shutdown
       (ready\<lparr>q := [], frames := [], recording := False,
          trace := trace ready @ [LedOff Red, LedOff Green, LedOn Red, Sleep 10]\<rparr>))"
    using a by (simp add: program_def ready_def [symmetric] ready_sel)
  have c: "open_result no_microphone_flipped = ConstructorRaises" "stream ready = None"
    by (simp_all add: no_microphone_flipped_def no_microphone_def ready_sel)
  show ?thesis
    unfolding a b
    using w ne c
    by (simp add: ready_state initial_state_def played_def loads_def shutdown_def
        emit_def model_set_def)
qed

end
